theory Spec2Isabelle
  imports Main "HOL-Library.Word" "HOL-Library.Sublist"
begin

section \<open>Shared vocabulary\<close>

text \<open>
  Fixed-width C++ integers are words. \<open>Handle\<close> is \<open>int64_t\<close>, compared with the signed
  order \<open>\<le>s\<close>; \<open>size_t\<close> and \<open>uint64_t\<close> are 64 bits wide on the target; \<open>int\<close>,
  \<open>pid_t\<close> and the wait status are 32 bits wide.
\<close>

type_synonym int32 = "32 word"
type_synonym int64 = "64 word"
type_synonym uint64 = "64 word"
type_synonym size_t = "64 word"

text \<open>
  A \<open>LOG(severity) << a << b << ...\<close> statement is one entry: its severity and the pieces
  streamed into it, strings as they are and numbers as numbers.
\<close>

datatype severity = VERBOSE | DEBUG | WARNING | ERROR | FATAL

datatype piece = Str string | Num int

datatype log_entry = LOG severity "piece list"

text \<open>
  A line handed to the \<open>android::Printer\<close>: the format string of \<open>printFormatLine\<close>
  (or the text of \<open>printLine\<close>) and the arguments that fill it.
\<close>

datatype line = Line string "piece list"

section \<open>perfetto/perfetto_consumer.cc: the tracing-session tracker\<close>

type_synonym Handle = int64
type_synonym State = int32
type_synonym TraceBuffer = "8 word list"

datatype StateKind =
    kUncreated
  | kCreated
  | kStartedTracing
  | kReadTracing
  | kTimedOutDestroyed
  | kDestroyed

fun ToString :: "StateKind \<Rightarrow> string" where
  "ToString kUncreated = ''kUncreated''"
| "ToString kCreated = ''kCreated''"
| "ToString kStartedTracing = ''kStartedTracing''"
| "ToString kReadTracing = ''kReadTracing''"
| "ToString kTimedOutDestroyed = ''kTimedOutDestroyed''"
| "ToString kDestroyed = ''kDestroyed''"

text \<open>
  Member names of the source end in an underscore, which an identifier here cannot; the
  underscore is written \<open>_f\<close>: \<open>handle_f\<close> is the member \<open>handle_\<close>.
\<close>

record HandleDescription =
  handle_f :: Handle
  kind_f :: StateKind
  state_f :: State
  started_tracing_ns_f :: "uint64 option"
  last_transition_ns_f :: uint64

text \<open>
  \<open>struct Impl\<close>. \<open>states_f\<close> is a \<open>std::map<Handle, HandleDescription>\<close>: an association
  list kept in ascending signed key order, which is the order \<open>Dump\<close> walks it in.
\<close>

record Impl =
  states_f :: "(Handle \<times> HandleDescription) list"
  last_created_f :: Handle
  last_destroyed_f :: Handle

definition Impl_init :: Impl where
  "Impl_init = \<lparr>states_f = [], last_created_f = 0, last_destroyed_f = 0\<rparr>"

text \<open>
  What the world outside the tracker answers during one call: the handle the raw engine's
  \<open>Create\<close> returns, the raw \<open>PollState\<close>, the buffer of the raw \<open>ReadTrace\<close>, the
  clock read by \<open>GetTimeNanoseconds\<close>, and the indeterminate contents of a
  \<open>HandleDescription\<close> local that is declared without an initialiser.
\<close>

record raw =
  raw_Create :: Handle
  raw_PollState :: "Handle \<Rightarrow> State"
  raw_ReadTrace :: "Handle \<Rightarrow> TraceBuffer"
  GetTimeNanoseconds :: uint64
  indeterminate :: HandleDescription

text \<open>\<open>std::map\<close>: \<open>find\<close>, \<open>operator[]=\<close>, assignment through an iterator, \<open>erase\<close>.\<close>

definition map_find :: "(Handle \<times> 'v) list \<Rightarrow> Handle \<Rightarrow> 'v option" where
  "map_find m k = map_of m k"

fun map_put :: "Handle \<Rightarrow> 'v \<Rightarrow> (Handle \<times> 'v) list \<Rightarrow> (Handle \<times> 'v) list" where
  "map_put k v [] = [(k, v)]"
| "map_put k v ((k', v') # m) =
     (if k = k' then (k, v) # m
      else if k <s k' then (k, v) # (k', v') # m
      else (k', v') # map_put k v m)"

definition map_assign :: "Handle \<Rightarrow> 'v \<Rightarrow> (Handle \<times> 'v) list \<Rightarrow> (Handle \<times> 'v) list" where
  "map_assign k v m = map (\<lambda>(k', v'). if k' = k then (k', v) else (k', v')) m"

definition map_erase :: "Handle \<Rightarrow> (Handle \<times> 'v) list \<Rightarrow> (Handle \<times> 'v) list" where
  "map_erase k m = filter (\<lambda>(k', v'). k' \<noteq> k) m"

text \<open>
  \<open>UpdateHandleDescription\<close>. Its \<open>CHECK(handle_desc != nullptr)\<close> cannot fail: every
  caller passes the address of a local or of a map element.
\<close>

definition UpdateHandleDescription ::
    "raw \<Rightarrow> HandleDescription \<Rightarrow> StateKind \<Rightarrow> HandleDescription" where
  "UpdateHandleDescription r handle_desc kind =
     (let d1 = handle_desc\<lparr>kind_f := kind\<rparr>;
          d2 = d1\<lparr>state_f := raw_PollState r (handle_f d1)\<rparr>;
          d3 = d2\<lparr>last_transition_ns_f := GetTimeNanoseconds r\<rparr>
      in if kind = kStartedTracing
         then d3\<lparr>started_tracing_ns_f := Some (last_transition_ns_f d3)\<rparr>
         else d3)"

text \<open>The two fatal checks of \<open>Create\<close>; a failed \<open>CHECK\<close> aborts the process.\<close>

datatype check_failure =
    CHECK_EQ_last_created_handle
  | CHECK_handle_reused

text \<open>
  \<open>Impl::Create\<close>. The \<open>++last_created_\<close> is word addition. The local \<open>handle_desc\<close>
  starts indeterminate apart from its \<open>std::optional\<close> member, which starts empty.
\<close>

definition Create ::
    "raw \<Rightarrow> size_t \<Rightarrow> Impl \<Rightarrow> check_failure + (Handle \<times> log_entry list \<times> Impl)" where
  "Create r config_len s =
     (let entry = LOG VERBOSE [Str ''PerfettoConsumer::Create('', Str ''config_len='',
                               Num (uint config_len), Str '')''];
          handle = raw_Create r;
          s1 = s\<lparr>last_created_f := last_created_f s + 1\<rparr>
      in if last_created_f s1 \<noteq> handle then Inl CHECK_EQ_last_created_handle
         else
           let handle_desc0 = (indeterminate r)\<lparr>started_tracing_ns_f := None\<rparr>;
               handle_desc1 = handle_desc0\<lparr>handle_f := handle\<rparr>;
               handle_desc = UpdateHandleDescription r handle_desc1 kCreated
           in if map_find (states_f s1) handle \<noteq> None then Inl CHECK_handle_reused
              else Inr (handle, [entry],
                        s1\<lparr>states_f := map_put handle handle_desc (states_f s1)\<rparr>))"

definition StartTracing :: "raw \<Rightarrow> Handle \<Rightarrow> Impl \<Rightarrow> log_entry list \<times> Impl" where
  "StartTracing r handle s =
     (let entry = LOG DEBUG [Str ''PerfettoConsumer::StartTracing(handle='',
                             Num (sint handle), Str '')'']
      in case map_find (states_f s) handle of
        None \<Rightarrow>
          ([entry, LOG ERROR [Str ''Cannot StartTracing('', Num (sint handle),
                              Str ''), untracked handle'']], s)
      | Some handle_desc \<Rightarrow>
          ([entry], s\<lparr>states_f :=
                  map_assign handle (UpdateHandleDescription r handle_desc kStartedTracing)
                    (states_f s)\<rparr>))"

definition ReadTrace :: "raw \<Rightarrow> Handle \<Rightarrow> Impl \<Rightarrow> TraceBuffer \<times> log_entry list \<times> Impl" where
  "ReadTrace r handle s =
     (let entry = LOG DEBUG [Str ''PerfettoConsumer::ReadTrace(handle='',
                             Num (sint handle), Str '')'']
      in case map_find (states_f s) handle of
        None \<Rightarrow>
          ([], [entry, LOG ERROR [Str ''Cannot ReadTrace('', Num (sint handle),
                                  Str ''), untracked handle'']], s)
      | Some handle_desc \<Rightarrow>
          (raw_ReadTrace r handle, [entry],
           s\<lparr>states_f :=
               map_assign handle (UpdateHandleDescription r handle_desc kReadTracing)
                 (states_f s)\<rparr>))"

definition Destroy :: "raw \<Rightarrow> Handle \<Rightarrow> Impl \<Rightarrow> log_entry list \<times> Impl" where
  "Destroy r handle s =
     (let entry = LOG VERBOSE [Str ''PerfettoConsumer::Destroy(handle='',
                               Num (sint handle), Str '')'']
      in case map_find (states_f s) handle of
        None \<Rightarrow>
          ([entry, LOG ERROR [Str ''Cannot Destroy('', Num (sint handle),
                              Str ''), untracked handle'']], s)
      | Some handle_desc \<Rightarrow>
          (let s1 = s\<lparr>states_f :=
                        map_assign handle (UpdateHandleDescription r handle_desc kDestroyed)
                          (states_f s)\<rparr>;
               s2 = s1\<lparr>last_destroyed_f := handle\<rparr>
           in ([entry], s2\<lparr>states_f := map_erase handle (states_f s2)\<rparr>)))"

text \<open>
  \<open>IsDestroyed\<close> and \<open>IsUncreated\<close>, branch for branch, with the branches after the
  \<open>it == states_.end()\<close> test that no input reaches. \<open>kInvalidHandle\<close> is declared in a
  header outside the sources at hand, so it is a parameter.
\<close>

definition IsDestroyed :: "Handle \<Rightarrow> Impl \<Rightarrow> Handle \<Rightarrow> bool" where
  "IsDestroyed kInvalidHandle s handle =
     (let it = map_find (states_f s) handle in
      if it \<noteq> None then False
      else if handle = kInvalidHandle then False
      else if it = None then handle \<le>s last_destroyed_f s
      else if handle <s fst (hd (states_f s)) then True
      else if fst (last (states_f s)) <s handle then False
      else True)"

definition IsUncreated :: "Handle \<Rightarrow> Impl \<Rightarrow> Handle \<Rightarrow> bool" where
  "IsUncreated kInvalidHandle s handle =
     (let it = map_find (states_f s) handle in
      if it \<noteq> None then False
      else if handle = kInvalidHandle then True
      else if it = None then last_destroyed_f s <s handle
      else if handle <s fst (hd (states_f s)) then False
      else if fst (last (states_f s)) <s handle then True
      else False)"

text \<open>
  \<open>GetOrInferHandleDescription\<close>. For an untracked handle the local \<open>state\<close> is returned:
  updated to \<open>kDestroyed\<close> when \<open>IsDestroyed\<close>, and otherwise as it was declared.
\<close>

definition GetOrInferHandleDescription ::
    "Handle \<Rightarrow> raw \<Rightarrow> Impl \<Rightarrow> Handle \<Rightarrow> HandleDescription \<times> log_entry list" where
  "GetOrInferHandleDescription kInvalidHandle r s handle =
     (case map_find (states_f s) handle of
        None \<Rightarrow>
          (let state = (indeterminate r)\<lparr>started_tracing_ns_f := None\<rparr>
           in if IsDestroyed kInvalidHandle s handle
              then (UpdateHandleDescription r state kDestroyed, [])
              else if \<not> IsUncreated kInvalidHandle s handle
                   then (state, [LOG WARNING [Str ''bad state detection'']])
                   else (state, []))
      | Some d \<Rightarrow> (d, []))"

text \<open>
  \<open>Impl::Dump\<close>. The argument is what \<open>mutex_.try_lock()\<close> returned; the second component
  of the result says whether \<open>mutex_.unlock()\<close> is called at the end.
\<close>

definition Dump_handle :: "HandleDescription \<Rightarrow> line list" where
  "Dump_handle handle_desc =
     (let started_tracing =
            (case started_tracing_ns_f handle_desc of Some t \<Rightarrow> t | None \<Rightarrow> 0)
      in [Line ''    Handle %ld'' [Num (sint (handle_f handle_desc))],
          Line ''      Kind: %s'' [Str (ToString (kind_f handle_desc))],
          Line ''      Perfetto State: %d'' [Num (sint (state_f handle_desc))],
          Line ''      Started tracing at: %lu'' [Num (uint started_tracing)],
          Line ''      Last transition at: %lu''
            [Num (uint (last_transition_ns_f handle_desc))]])"

definition Impl_Dump :: "bool \<Rightarrow> Impl \<Rightarrow> line list \<times> bool" where
  "Impl_Dump is_it_locked s =
     ([Line ''Perfetto consumer state:'' [],
       Line ''  Last destroyed handle: %ld'' [Num (sint (last_destroyed_f s))],
       Line ''  Last created handle: %ld'' [Num (sint (last_created_f s))],
       Line '''' [],
       Line ''  In-flight handles:'' []]
      @ concat (map (\<lambda>(k, handle_desc). Dump_handle handle_desc) (states_f s))
      @ (if states_f s = [] then [Line ''    (None)'' []] else [])
      @ [Line '''' []],
      is_it_locked)"

text \<open>
  Sequences of tracker calls, for statements about the states the tracker can be in. A
  failed \<open>CHECK\<close> ends the run.
\<close>

datatype call =
    CallCreate raw size_t
  | CallStartTracing raw Handle
  | CallReadTrace raw Handle
  | CallDestroy raw Handle

fun apply_call :: "call \<Rightarrow> Impl \<Rightarrow> check_failure + Impl" where
  "apply_call (CallCreate r config_len) s =
     (case Create r config_len s of Inl e \<Rightarrow> Inl e | Inr (h, l, s') \<Rightarrow> Inr s')"
| "apply_call (CallStartTracing r h) s = Inr (snd (StartTracing r h s))"
| "apply_call (CallReadTrace r h) s = Inr (snd (snd (ReadTrace r h s)))"
| "apply_call (CallDestroy r h) s = Inr (snd (Destroy r h s))"

fun run_calls :: "call list \<Rightarrow> Impl \<Rightarrow> check_failure + Impl" where
  "run_calls [] s = Inr s"
| "run_calls (c # cs) s =
     (case apply_call c s of Inl e \<Rightarrow> Inl e | Inr s' \<Rightarrow> run_calls cs s')"

definition INT64_MAX :: int64 where
  "INT64_MAX = 0x7FFFFFFFFFFFFFFF"

text \<open>Every tracked handle is at most the last created one.\<close>

definition tracked_upto_last_created :: "Impl \<Rightarrow> bool" where
  "tracked_upto_last_created s =
     list_all (\<lambda>(k, d). k \<le>s last_created_f s) (states_f s)"

text \<open>
  A raw engine that hands out the handle \<open>h\<close>, polls as state 0 and reads the clock as
  \<open>t\<close>; and the run that creates sessions 1, 2, 3 and destroys 3, then 2.
\<close>

definition engine :: "Handle \<Rightarrow> uint64 \<Rightarrow> raw" where
  "engine h t =
     \<lparr>raw_Create = h, raw_PollState = (\<lambda>_. 0), raw_ReadTrace = (\<lambda>_. []),
      GetTimeNanoseconds = t,
      indeterminate = \<lparr>handle_f = 0, kind_f = kUncreated, state_f = 0,
                       started_tracing_ns_f = None, last_transition_ns_f = 0\<rparr>\<rparr>"

definition created_123 :: "call list" where
  "created_123 =
     [CallCreate (engine 1 10) 64, CallCreate (engine 2 20) 64, CallCreate (engine 3 30) 64]"

definition destroyed_3 :: "call list" where
  "destroyed_3 = created_123 @ [CallDestroy (engine 0 40) 3]"

definition destroyed_3_2 :: "call list" where
  "destroyed_3_2 = destroyed_3 @ [CallDestroy (engine 0 50) 2]"

text \<open>The state a run from the initial state ends in (the initial state if it aborts).\<close>

definition state_after :: "call list \<Rightarrow> Impl" where
  "state_after cs = (case run_calls cs Impl_init of Inr s \<Rightarrow> s | Inl e \<Rightarrow> Impl_init)"

section \<open>binder/package_version_map.cc: the package-version cache\<close>

type_synonym VersionMap = "string \<rightharpoonup> int64"

text \<open>
  The remote package manager, \<open>package_manager_\<close>: its two queries are declared outside the
  sources at hand, so what they answer is a parameter.
\<close>

record PackageManagerRemote =
  GetPackageVersionMap :: VersionMap
  GetPackageVersion :: "string \<Rightarrow> int64 option"

record PackageVersionMap =
  version_map_f :: VersionMap

datatype remote_query = Query_GetPackageVersionMap | Query_GetPackageVersion string

text \<open>\<open>PackageVersionMap::Create\<close>: no object when the remote cannot be reached.\<close>

definition PackageVersionMap_Create ::
    "PackageManagerRemote option \<Rightarrow> (PackageVersionMap \<times> remote_query list) option" where
  "PackageVersionMap_Create package_manager =
     (case package_manager of
        None \<Rightarrow> None
      | Some pm \<Rightarrow>
          Some (\<lparr>version_map_f = GetPackageVersionMap pm\<rparr>, [Query_GetPackageVersionMap]))"

text \<open>
  \<open>GetOrQueryPackageVersion\<close> returns the version, the queries it sent to the remote, its
  log, and the cache afterwards.
\<close>

definition GetOrQueryPackageVersion ::
    "PackageManagerRemote \<Rightarrow> string \<Rightarrow> PackageVersionMap \<Rightarrow>
       int64 \<times> remote_query list \<times> log_entry list \<times> PackageVersionMap" where
  "GetOrQueryPackageVersion pm package_name m =
     (case version_map_f m package_name of
        None \<Rightarrow>
          (let w = LOG WARNING [Str ''Cannot find version for: '', Str package_name,
                                Str '' in the hash table'']
           in case GetPackageVersion pm package_name of
                Some version \<Rightarrow>
                  (version, [Query_GetPackageVersion package_name],
                   [w, LOG VERBOSE [Str ''Find version for: '', Str package_name,
                                    Str '' on the fly.'']],
                   m\<lparr>version_map_f := (version_map_f m)(package_name \<mapsto> version)\<rparr>)
              | None \<Rightarrow>
                  (- 1, [Query_GetPackageVersion package_name],
                   [w, LOG ERROR [Str ''Cannot find version for: '', Str package_name,
                                  Str '' on the fly.'']],
                   m))
      | Some version \<Rightarrow> (version, [], [], m))"

section \<open>maintenance/controller.cc: the compilation controller\<close>

subsection \<open>Rows of the store and the store's queries\<close>

text \<open>
  The row types and queries of \<open>db/models.h\<close> as the controller uses them. The header is
  outside the sources at hand: a \<open>DbHandle\<close> is the record of what each query answers.
\<close>

record PackageModel =
  pkg_id :: int32
  pkg_name :: string
  pkg_version :: int32

record ActivityModel =
  act_id :: int32
  act_name :: string
  act_package_id :: int32

record AppLaunchHistoryModel =
  hist_id :: int32
  report_fully_drawn_ns :: "uint64 option"
  total_time_ns :: "uint64 option"

record RawTraceModel =
  rt_history_id :: int32
  rt_file_path :: string

record PrefetchFileModel =
  pf_activity_id :: int32
  pf_file_path :: string

record CompilationInput =
  filename :: string
  timestamp_limit_ns :: uint64

record DbHandle =
  Package_SelectAll :: "PackageModel list"
  Package_SelectByNameAndVersion :: "string \<Rightarrow> int32 \<Rightarrow> PackageModel option"
  Activity_SelectByPackageId :: "int32 \<Rightarrow> ActivityModel list"
  Activity_SelectByNameAndPackageId :: "string \<Rightarrow> int32 \<Rightarrow> ActivityModel option"
  SelectActivityHistoryForCompile :: "int32 \<Rightarrow> AppLaunchHistoryModel list"
  RawTrace_SelectByHistoryId :: "int32 \<Rightarrow> RawTraceModel option"
  PrefetchFile_Insert :: "int32 \<Rightarrow> string \<Rightarrow> PrefetchFileModel option"
  PrefetchFile_SelectByVersionedComponentName ::
    "string \<Rightarrow> string \<Rightarrow> int32 \<Rightarrow> PrefetchFileModel option"

subsection \<open>Parameters, process state and the outside world\<close>

text \<open>\<open>ControllerParameters\<close>; its \<open>exec\<close> member is part of the outside world below.\<close>

record ControllerParameters =
  output_text :: bool
  inode_textcache :: "string option"
  verbose :: bool
  recompile :: bool
  min_traces :: uint64

record LastJobInfo =
  last_run_ns_f :: int64
  activities_last_compiled_f :: size_t

text \<open>
  What the controller asks of the outside world: the path derivation of
  \<open>CompiledTraceFileModel\<close>, the file system, the \<open>exec\<close> object, \<open>waitpid\<close>, the clock and,
  for the dump, the prefetch-file reader and the time formatting. \<open>Fork\<close>, \<open>waitpid\<close> and
  \<open>Execve\<close> are asked by the number of forks made before. \<open>Execve\<close> answering \<open>None\<close> is
  the call that does not return.
\<close>

record system =
  FilePath :: "string \<Rightarrow> string \<Rightarrow> int32 \<Rightarrow> string"
  filesystem_exists :: "string \<Rightarrow> bool"
  MkdirWithParents :: "string \<Rightarrow> bool"
  exec_Fork :: "nat \<Rightarrow> int32"
  waitpid_wstatus :: "nat \<Rightarrow> int32"
  exec_Execve :: "nat \<Rightarrow> string \<Rightarrow> piece list \<Rightarrow> int32 option"
  time_now :: int64
  PrefetchSizeInBytes :: "string \<Rightarrow> size_t option"
  GetTimestampForPrefetchFile :: "string \<Rightarrow> string"
  TimeToString :: "int64 \<Rightarrow> string"

text \<open>The calls that leave the controller, in the order they are made.\<close>

datatype event =
    is_Logged: Logged log_entry
  | Fork_called int32
  | Waitpid_called int32 int32
  | Execve_called string "piece list"
  | Mkdir_called string bool
  | Insert_called int32 string bool

text \<open>
  The process state of the controller: the global \<open>last_job_info_\<close>, the number of forks
  made and the calls made so far.
\<close>

record ctl =
  last_job_info_f :: LastJobInfo
  fork_calls :: nat
  effects :: "event list"

definition emit :: "event \<Rightarrow> ctl \<Rightarrow> ctl" where
  "emit e s = s\<lparr>effects := effects s @ [e]\<rparr>"

definition emit_logs :: "log_entry list \<Rightarrow> ctl \<Rightarrow> ctl" where
  "emit_logs ls s = s\<lparr>effects := effects s @ map Logged ls\<rparr>"

text \<open>
  How a call can end without returning: \<open>LOG(FATAL)\<close> aborts the process; a successful
  \<open>execve\<close> replaces it.
\<close>

datatype stop = LOG_FATAL_abort | execve_replaced_process

subsection \<open>The wait status\<close>

text \<open>The macros of \<open>sys/wait.h\<close>, as the C library defines them.\<close>

definition WTERMSIG :: "int32 \<Rightarrow> int32" where
  "WTERMSIG wstatus = and wstatus 0x7f"

definition WIFEXITED :: "int32 \<Rightarrow> bool" where
  "WIFEXITED wstatus = (WTERMSIG wstatus = 0)"

definition WEXITSTATUS :: "int32 \<Rightarrow> int32" where
  "WEXITSTATUS wstatus = drop_bit 8 (and wstatus 0xff00)"

subsection \<open>Fork and exec of the compiler\<close>

definition kCommandFileName :: string where
  "kCommandFileName = ''/system/bin/iorap.cmd.compiler''"

definition kMinTracesForCompilation :: nat where
  "kMinTracesForCompilation = 3"

record CompilerForkParameters =
  input_pbs :: "string list"
  timestamp_limits_ns :: "uint64 list"
  output_proto :: string
  controller_params :: ControllerParameters

definition CompilerForkParameters_new ::
    "CompilationInput list \<Rightarrow> string \<Rightarrow> ControllerParameters \<Rightarrow> CompilerForkParameters" where
  "CompilerForkParameters_new perfetto_traces out params =
     \<lparr>input_pbs = map filename perfetto_traces,
      timestamp_limits_ns = map timestamp_limit_ns perfetto_traces,
      output_proto = out,
      controller_params = params\<rparr>"

text \<open>
  \<open>MakeCompilerParams\<close>. An argument is a string or a number that \<open>AppendArgsRepeatedly\<close>
  renders in decimal.
\<close>

definition MakeCompilerParams :: "CompilerForkParameters \<Rightarrow> piece list" where
  "MakeCompilerParams params =
     map Str (input_pbs params)
     @ concat (map (\<lambda>t. [Str ''--timestamp_limit_ns'', Num (uint t)])
                 (timestamp_limits_ns params))
     @ (if output_text (controller_params params) then [Str ''--output-text''] else [])
     @ [Str ''--output-proto'', Str (output_proto params)]
     @ (case inode_textcache (controller_params params) of
          Some c \<Rightarrow> [Str ''--inode-textcache'', Str c]
        | None \<Rightarrow> [])
     @ (if verbose (controller_params params) then [Str ''--verbose''] else [])"

definition StartViaFork :: "system \<Rightarrow> CompilerForkParameters \<Rightarrow> ctl \<Rightarrow> (stop + bool) \<times> ctl" where
  "StartViaFork sys params s =
     (let n = fork_calls s;
          child = exec_Fork sys n;
          s1 = emit (Fork_called child) (s\<lparr>fork_calls := n + 1\<rparr>)
      in if child = - 1 then
           (Inl LOG_FATAL_abort,
            emit (Logged (LOG FATAL [Str ''Failed to fork a process for compilation''])) s1)
         else if 0 <s child then
           (let s2 = emit (Logged (LOG DEBUG
                        [Str ''forked into a process for compilation , pid = '',
                         Num (sint child)])) s1;
                wstatus = waitpid_wstatus sys n;
                s3 = emit (Waitpid_called child wstatus) s2
            in if \<not> WIFEXITED wstatus then
                 (Inr False,
                  emit (Logged (LOG ERROR [Str ''Child terminated abnormally, status: '',
                                           Num (sint (WEXITSTATUS wstatus))])) s3)
               else
                 (Inr True,
                  emit (Logged (LOG DEBUG [Str ''Child terminated, status: '',
                                           Num (sint (WEXITSTATUS wstatus))])) s3))
         else
           (let argv_vec = MakeCompilerParams params;
                s2 = emit (Logged (LOG DEBUG
                        ([Str ''fork+exec: '', Str kCommandFileName, Str '' '']
                         @ argv_vec))) s1;
                s3 = emit (Execve_called kCommandFileName argv_vec) s2
            in case exec_Execve sys n kCommandFileName argv_vec of
                 None \<Rightarrow> (Inl execve_replaced_process, s3)
               | Some ret \<Rightarrow> (Inr False, s3)))"

subsection \<open>Compilation inputs\<close>

definition UINT64_MAX :: uint64 where
  "UINT64_MAX = 0xFFFFFFFFFFFFFFFF"

text \<open>
  \<open>GetPerfettoTraceInfo\<close>: the loop over the histories, with the vector and the log it
  builds as accumulators.
\<close>

fun GetPerfettoTraceInfo_loop ::
    "DbHandle \<Rightarrow> AppLaunchHistoryModel list \<Rightarrow> CompilationInput list \<times> log_entry list \<Rightarrow>
       CompilationInput list \<times> log_entry list" where
  "GetPerfettoTraceInfo_loop db [] (perfetto_traces, logs) = (perfetto_traces, logs)"
| "GetPerfettoTraceInfo_loop db (history # histories) (perfetto_traces, logs) =
     (case RawTrace_SelectByHistoryId db (hist_id history) of
        None \<Rightarrow>
          GetPerfettoTraceInfo_loop db histories
            (perfetto_traces,
             logs @ [LOG ERROR [Str ''Cannot find raw trace for history_id: '',
                                Num (sint (hist_id history))]])
      | Some raw_trace \<Rightarrow>
          (case report_fully_drawn_ns history of
             Some t \<Rightarrow>
               GetPerfettoTraceInfo_loop db histories
                 (perfetto_traces
                    @ [\<lparr>filename = rt_file_path raw_trace, timestamp_limit_ns = t\<rparr>],
                  logs)
           | None \<Rightarrow>
               (case total_time_ns history of
                  Some t \<Rightarrow>
                    GetPerfettoTraceInfo_loop db histories
                      (perfetto_traces
                         @ [\<lparr>filename = rt_file_path raw_trace, timestamp_limit_ns = t\<rparr>],
                       logs)
                | None \<Rightarrow>
                    GetPerfettoTraceInfo_loop db histories
                      (perfetto_traces
                         @ [\<lparr>filename = rt_file_path raw_trace,
                              timestamp_limit_ns = UINT64_MAX\<rparr>],
                       logs @ [LOG ERROR [Str '' No timestamp exists. Using the max value.'']]))))"

definition GetPerfettoTraceInfo ::
    "DbHandle \<Rightarrow> AppLaunchHistoryModel list \<Rightarrow> CompilationInput list \<times> log_entry list" where
  "GetPerfettoTraceInfo db histories = GetPerfettoTraceInfo_loop db histories ([], [])"

text \<open>
  The effective timestamp limit in the words of the specification: the report-fully-drawn
  time when set, else the total time when set, else the largest 64-bit unsigned value.
\<close>

definition effective_timestamp_limit :: "AppLaunchHistoryModel \<Rightarrow> uint64" where
  "effective_timestamp_limit history =
     (case report_fully_drawn_ns history of
        Some t \<Rightarrow> t
      | None \<Rightarrow>
          (case total_time_ns history of
             Some t \<Rightarrow> t
           | None \<Rightarrow> (2 ^ 64 - 1 :: uint64)))"

definition compilation_input_of ::
    "DbHandle \<Rightarrow> AppLaunchHistoryModel \<Rightarrow> CompilationInput list" where
  "compilation_input_of db history =
     (case RawTrace_SelectByHistoryId db (hist_id history) of
        None \<Rightarrow> []
      | Some raw_trace \<Rightarrow>
          [\<lparr>filename = rt_file_path raw_trace,
            timestamp_limit_ns = effective_timestamp_limit history\<rparr>])"

text \<open>What one history adds to the log: an error for a missing raw trace or timestamp.\<close>

definition history_logs :: "DbHandle \<Rightarrow> AppLaunchHistoryModel \<Rightarrow> log_entry list" where
  "history_logs db history =
     (case RawTrace_SelectByHistoryId db (hist_id history) of
        None \<Rightarrow>
          [LOG ERROR [Str ''Cannot find raw trace for history_id: '',
                      Num (sint (hist_id history))]]
      | Some raw_trace \<Rightarrow>
          (if report_fully_drawn_ns history = None \<and> total_time_ns history = None
           then [LOG ERROR [Str '' No timestamp exists. Using the max value.'']]
           else []))"

subsection \<open>Compiling an activity, a package, the device\<close>

text \<open>The two stream operators that print a vector of compilation inputs.\<close>

definition VectorPrinter :: "CompilationInput list \<Rightarrow> piece list" where
  "VectorPrinter values =
     [Str ''[\<newline>'']
     @ concat (map (\<lambda>i. [Str ''file_path: '', Str (filename i), Str '' '',
                           Str ''timestamp_limit: '', Num (uint (timestamp_limit_ns i)),
                           Str '',\<newline>'']) values)
     @ [Str '']\<newline>'']"

definition CompileActivity ::
    "system \<Rightarrow> DbHandle \<Rightarrow> int32 \<Rightarrow> string \<Rightarrow> string \<Rightarrow> int32 \<Rightarrow> ControllerParameters \<Rightarrow>
       ctl \<Rightarrow> (stop + bool) \<times> ctl" where
  "CompileActivity sys db package_id package_name activity_name version params s =
     (let file_path = FilePath sys package_name activity_name version
      in if \<not> recompile params \<and> filesystem_exists sys file_path then
           (Inr True,
            emit (Logged (LOG DEBUG [Str ''compiled trace exists in '', Str file_path])) s)
         else
           case Activity_SelectByNameAndPackageId db activity_name package_id of
             None \<Rightarrow>
               (Inr False,
                emit (Logged (LOG ERROR [Str ''Cannot find activity for package_id: '',
                                         Num (sint package_id),
                                         Str '' activity_name: '', Str activity_name])) s)
           | Some activity \<Rightarrow>
               (let activity_id = act_id activity;
                    histories = SelectActivityHistoryForCompile db activity_id;
                    (perfetto_traces, trace_logs) = GetPerfettoTraceInfo db histories;
                    s1 = emit_logs trace_logs s
                in if length perfetto_traces < unat (min_traces params) then
                     (Inr False,
                      emit (Logged (LOG DEBUG
                              [Str ''The number of perfetto traces is '',
                               Num (int (length perfetto_traces)),
                               Str '', which is less than '',
                               Num (uint (min_traces params))])) s1)
                   else
                     (let s2 = s1\<lparr>last_job_info_f := (last_job_info_f s1)
                                   \<lparr>activities_last_compiled_f :=
                                      activities_last_compiled_f (last_job_info_f s1) + 1\<rparr>\<rparr>;
                          s3 = emit (Logged (LOG DEBUG
                                 ([Str ''Try to compiled package_id: '', Num (sint package_id),
                                  Str '' package_name: '', Str package_name,
                                  Str '' activity_name: '', Str activity_name,
                                  Str '' version: '', Num (sint version),
                                  Str '' file_path: '', Str file_path,
                                  Str '' verbose: '', Num (if verbose params then 1 else 0),
                                  Str '' perfetto_traces: '']
                                 @ VectorPrinter perfetto_traces))) s2;
                          s3 = (case inode_textcache params of
                                  Some c \<Rightarrow>
                                    emit (Logged (LOG DEBUG [Str ''inode_textcache: '', Str c])) s3
                                | None \<Rightarrow> s3);
                          compiler_params =
                            CompilerForkParameters_new perfetto_traces file_path params;
                          mkdir_ok = MkdirWithParents sys file_path;
                          s4 = emit (Mkdir_called file_path mkdir_ok) s3
                      in if \<not> mkdir_ok then
                           (Inr False,
                            emit (Logged (LOG ERROR
                                    [Str ''Compile activity failed. Failed to mkdirs '',
                                     Str file_path])) s4)
                         else
                           case StartViaFork sys compiler_params s4 of
                             (Inl stopped, s5) \<Rightarrow> (Inl stopped, s5)
                           | (Inr False, s5) \<Rightarrow>
                               (Inr False,
                                emit (Logged (LOG ERROR
                                        [Str ''Compilation failed for package_id:'',
                                         Num (sint package_id),
                                         Str '' activity_name: '', Str activity_name])) s5)
                           | (Inr True, s5) \<Rightarrow>
                               (case PrefetchFile_Insert db activity_id file_path of
                                  None \<Rightarrow>
                                    (Inr False,
                                     emit (Logged (LOG ERROR
                                             [Str ''Cannot insert compiled trace activity_id: '',
                                              Num (sint activity_id),
                                              Str '' file_path: '', Str file_path]))
                                       (emit (Insert_called activity_id file_path False) s5))
                                | Some compiled_trace \<Rightarrow>
                                    (Inr True,
                                     emit (Insert_called activity_id file_path True) s5)))))"

text \<open>The loop of \<open>CompilePackage\<close> over the activities, \<open>ret\<close> as accumulator.\<close>

fun CompilePackage_loop ::
    "system \<Rightarrow> DbHandle \<Rightarrow> PackageModel \<Rightarrow> int32 \<Rightarrow> ControllerParameters \<Rightarrow>
       ActivityModel list \<Rightarrow> bool \<Rightarrow> ctl \<Rightarrow> (stop + bool) \<times> ctl" where
  "CompilePackage_loop sys db package version params [] ret s = (Inr ret, s)"
| "CompilePackage_loop sys db package version params (activity # activities) ret s =
     (case CompileActivity sys db (pkg_id package) (pkg_name package) (act_name activity)
             version params s of
        (Inl stopped, s') \<Rightarrow> (Inl stopped, s')
      | (Inr ok, s') \<Rightarrow>
          CompilePackage_loop sys db package version params activities
            (if \<not> ok then False else ret) s')"

definition CompilePackage ::
    "system \<Rightarrow> DbHandle \<Rightarrow> string \<Rightarrow> int32 \<Rightarrow> ControllerParameters \<Rightarrow> ctl \<Rightarrow>
       (stop + bool) \<times> ctl" where
  "CompilePackage sys db package_name version params s =
     (case Package_SelectByNameAndVersion db package_name version of
        None \<Rightarrow>
          (Inr False,
           emit (Logged (LOG ERROR [Str ''Cannot find package for package_name: '',
                                    Str package_name, Str '' and version '',
                                    Num (sint version)])) s)
      | Some package \<Rightarrow>
          CompilePackage_loop sys db package version params
            (Activity_SelectByPackageId db (pkg_id package)) True s)"

text \<open>The loop of \<open>CompileAppsOnDevice\<close> over the packages.\<close>

fun CompileAppsOnDevice_loop ::
    "system \<Rightarrow> DbHandle \<Rightarrow> ControllerParameters \<Rightarrow> PackageModel list \<Rightarrow> bool \<Rightarrow> ctl \<Rightarrow>
       (stop + bool) \<times> ctl" where
  "CompileAppsOnDevice_loop sys db params [] ret s = (Inr ret, s)"
| "CompileAppsOnDevice_loop sys db params (package # packages) ret s =
     (case CompilePackage sys db (pkg_name package) (pkg_version package) params s of
        (Inl stopped, s') \<Rightarrow> (Inl stopped, s')
      | (Inr ok, s') \<Rightarrow>
          CompileAppsOnDevice_loop sys db params packages (if \<not> ok then False else ret) s')"

definition CompileAppsOnDevice ::
    "system \<Rightarrow> DbHandle \<Rightarrow> ControllerParameters \<Rightarrow> ctl \<Rightarrow> (stop + bool) \<times> ctl" where
  "CompileAppsOnDevice sys db params s =
     (let s1 = s\<lparr>last_job_info_f :=
                  (last_job_info_f s)\<lparr>activities_last_compiled_f := 0\<rparr>\<rparr>
      in case CompileAppsOnDevice_loop sys db params (Package_SelectAll db) True s1 of
           (Inl stopped, s2) \<Rightarrow> (Inl stopped, s2)
         | (Inr ret, s2) \<Rightarrow>
             (Inr ret,
              s2\<lparr>last_job_info_f := (last_job_info_f s2)\<lparr>last_run_ns_f := time_now sys\<rparr>\<rparr>))"

text \<open>
  The three overloads of \<open>Compile\<close>. The \<open>DbHandle\<close> argument is the handle of the schema
  that \<open>SchemaModel::GetOrCreate(db_path)\<close> opens.
\<close>

definition Compile_device ::
    "system \<Rightarrow> DbHandle \<Rightarrow> ControllerParameters \<Rightarrow> ctl \<Rightarrow> (stop + bool) \<times> ctl" where
  "Compile_device sys db params s = CompileAppsOnDevice sys db params s"

definition Compile_package ::
    "system \<Rightarrow> DbHandle \<Rightarrow> string \<Rightarrow> int32 \<Rightarrow> ControllerParameters \<Rightarrow> ctl \<Rightarrow>
       (stop + bool) \<times> ctl" where
  "Compile_package sys db package_name version params s =
     CompilePackage sys db package_name version params s"

definition Compile_activity ::
    "system \<Rightarrow> DbHandle \<Rightarrow> string \<Rightarrow> string \<Rightarrow> int32 \<Rightarrow> ControllerParameters \<Rightarrow> ctl \<Rightarrow>
       (stop + bool) \<times> ctl" where
  "Compile_activity sys db package_name activity_name version params s =
     (case Package_SelectByNameAndVersion db package_name version of
        None \<Rightarrow>
          (Inr False,
           emit (Logged (LOG ERROR [Str ''Cannot find package with name '',
                                    Str package_name, Str '' and version '',
                                    Num (sint version)])) s)
      | Some package \<Rightarrow>
          CompileActivity sys db (pkg_id package) package_name activity_name version params s)"

subsection \<open>The dump of the controller\<close>

definition DumpPackageActivity ::
    "system \<Rightarrow> DbHandle \<Rightarrow> PackageModel \<Rightarrow> ActivityModel \<Rightarrow> line list \<times> log_entry list" where
  "DumpPackageActivity sys db package activity =
     (let package_name = pkg_name package;
          package_version = pkg_version package;
          activity_name = act_name activity;
          head = [Line ''  %s/%s@%d''
                    [Str package_name, Str activity_name, Num (sint package_version)]];
          prefetch_file =
            PrefetchFile_SelectByVersionedComponentName db package_name activity_name
              package_version;
          histories = SelectActivityHistoryForCompile db (act_id activity);
          (perfetto_traces, trace_logs) = GetPerfettoTraceInfo db histories;
          status =
            (case prefetch_file of
               Some pf \<Rightarrow>
                 (let exists_on_disk = filesystem_exists sys (pf_file_path pf);
                      prefetch_byte_sum = PrefetchSizeInBytes sys (pf_file_path pf)
                  in [if exists_on_disk
                      then Line ''    Compiled Status: Usable compiled trace'' []
                      else Line ''    Compiled Status: Prefetch file deleted from disk.'' [],
                      case prefetch_byte_sum of
                        Some n \<Rightarrow> Line ''      Bytes to be prefetched: %zu'' [Num (uint n)]
                      | None \<Rightarrow> Line ''      Bytes to be prefetched: (bad file path)'' [],
                      Line ''      Time compiled: %s''
                        [Str (GetTimestampForPrefetchFile sys (pf_file_path pf))],
                      Line ''      %s'' [Str (pf_file_path pf)]])
             | None \<Rightarrow>
                 (let size = length perfetto_traces
                  in if kMinTracesForCompilation \<le> size
                     then [Line ''    Compiled Status: Raw traces pending compilation (%zu)''
                             [Num (int size)]]
                     else [Line ''    Compiled Status: Need %zu more traces for compilation''
                             [Num (int (kMinTracesForCompilation - size))]]))
      in (head @ status
          @ [Line ''    Raw traces:'' [],
             Line ''      Trace count: %zu'' [Num (int (length perfetto_traces))]]
          @ map (\<lambda>compilation_input. Line ''      %s'' [Str (filename compilation_input)])
              perfetto_traces,
          trace_logs))"

definition DumpPackage ::
    "system \<Rightarrow> DbHandle \<Rightarrow> PackageModel \<Rightarrow> line list \<times> log_entry list" where
  "DumpPackage sys db package =
     (let dumps = map (DumpPackageActivity sys db package)
                    (Activity_SelectByPackageId db (pkg_id package))
      in (concat (map fst dumps), concat (map snd dumps)))"

definition DumpAllPackages :: "system \<Rightarrow> DbHandle \<Rightarrow> line list \<times> log_entry list" where
  "DumpAllPackages sys db =
     (let dumps = map (DumpPackage sys db) (Package_SelectAll db)
      in ([Line ''Package history in database:'' []] @ concat (map fst dumps) @ [Line [] []],
          concat (map snd dumps)))"

text \<open>
  \<open>Dump\<close> of the controller. The first argument is what \<open>last_job_info_mutex_.try_lock()\<close>
  returned; the last component of the result says whether \<open>unlock()\<close> is called.
\<close>

definition Dump ::
    "bool \<Rightarrow> system \<Rightarrow> DbHandle \<Rightarrow> ctl \<Rightarrow> line list \<times> log_entry list \<times> bool" where
  "Dump locked sys db s =
     (let info = last_job_info_f s;
          (package_lines, logs) = DumpAllPackages sys db
      in ([Line ''Background job:'' []]
          @ (if \<not> locked then [Line ''  (possible deadlock)'' []] else [])
          @ [if last_run_ns_f info \<noteq> 0
             then Line ''  Last run at: %s'' [Str (TimeToString sys (last_run_ns_f info))]
             else Line ''  Last run at: (None)'' []]
          @ [Line ''  Activities last compiled: %zu''
               [Num (uint (activities_last_compiled_f info))],
             Line [] []]
          @ package_lines,
          logs, locked))"

text \<open>A report is annotated when one of its lines says \<open>possible deadlock\<close>.\<close>

fun mentions_deadlock :: "line \<Rightarrow> bool" where
  "mentions_deadlock (Line text args) =
     (sublist ''possible deadlock'' text \<or>
      list_ex (\<lambda>a. case a of Str t \<Rightarrow> sublist ''possible deadlock'' t | Num n \<Rightarrow> False) args)"

definition annotated :: "line list \<Rightarrow> bool" where
  "annotated report = list_ex mentions_deadlock report"

subsection \<open>Counting the attempts of a pass\<close>

text \<open>
  The calls a run added to the ones made before it, and the conditions under which
  \<open>CompileActivity\<close> gets as far as the evidence check and passes it.
\<close>

definition new_effects :: "ctl \<Rightarrow> ctl \<Rightarrow> event list" where
  "new_effects s s' = drop (length (effects s)) (effects s')"

definition evidence_count :: "DbHandle \<Rightarrow> ActivityModel \<Rightarrow> nat" where
  "evidence_count db activity =
     length (fst (GetPerfettoTraceInfo db (SelectActivityHistoryForCompile db (act_id activity))))"

definition attempted ::
    "system \<Rightarrow> DbHandle \<Rightarrow> ControllerParameters \<Rightarrow> int32 \<Rightarrow> string \<Rightarrow> string \<Rightarrow> int32 \<Rightarrow> bool" where
  "attempted sys db params package_id package_name activity_name version =
     ((recompile params \<or>
       \<not> filesystem_exists sys (FilePath sys package_name activity_name version)) \<and>
      (case Activity_SelectByNameAndPackageId db activity_name package_id of
         None \<Rightarrow> False
       | Some activity \<Rightarrow> unat (min_traces params) \<le> evidence_count db activity))"

definition attempted_in_package ::
    "system \<Rightarrow> DbHandle \<Rightarrow> ControllerParameters \<Rightarrow> PackageModel \<Rightarrow> int32 \<Rightarrow> ActivityModel list \<Rightarrow>
       nat" where
  "attempted_in_package sys db params package version activities =
     length (filter (\<lambda>activity. attempted sys db params (pkg_id package) (pkg_name package)
                                  (act_name activity) version) activities)"

definition attempted_of_row ::
    "system \<Rightarrow> DbHandle \<Rightarrow> ControllerParameters \<Rightarrow> PackageModel \<Rightarrow> nat" where
  "attempted_of_row sys db params row =
     (case Package_SelectByNameAndVersion db (pkg_name row) (pkg_version row) of
        None \<Rightarrow> 0
      | Some package \<Rightarrow>
          attempted_in_package sys db params package (pkg_version row)
            (Activity_SelectByPackageId db (pkg_id package)))"

definition attempted_on_device :: "system \<Rightarrow> DbHandle \<Rightarrow> ControllerParameters \<Rightarrow> nat" where
  "attempted_on_device sys db params =
     sum_list (map (attempted_of_row sys db params) (Package_SelectAll db))"

subsection \<open>A small store and world to run the controller on\<close>

definition demo_package :: PackageModel where
  "demo_package = \<lparr>pkg_id = 1, pkg_name = ''com.example'', pkg_version = 7\<rparr>"

definition demo_main :: ActivityModel where
  "demo_main = \<lparr>act_id = 10, act_name = ''Main'', act_package_id = 1\<rparr>"

definition demo_settings :: ActivityModel where
  "demo_settings = \<lparr>act_id = 11, act_name = ''Settings'', act_package_id = 1\<rparr>"

text \<open>
  \<open>Main\<close> has four histories: both times set, only the first, only the second, and one
  without a raw trace. \<open>Settings\<close> has two, one with no time at all.
\<close>

definition demo_histories :: "int32 \<Rightarrow> AppLaunchHistoryModel list" where
  "demo_histories activity_id =
     (if activity_id = 10 then
        [\<lparr>hist_id = 1, report_fully_drawn_ns = Some 100, total_time_ns = Some 150\<rparr>,
         \<lparr>hist_id = 2, report_fully_drawn_ns = Some 200, total_time_ns = None\<rparr>,
         \<lparr>hist_id = 3, report_fully_drawn_ns = None, total_time_ns = Some 300\<rparr>,
         \<lparr>hist_id = 4, report_fully_drawn_ns = Some 400, total_time_ns = None\<rparr>]
      else if activity_id = 11 then
        [\<lparr>hist_id = 5, report_fully_drawn_ns = None, total_time_ns = None\<rparr>,
         \<lparr>hist_id = 6, report_fully_drawn_ns = Some 600, total_time_ns = None\<rparr>]
      else [])"

definition demo_raw_trace :: "int32 \<Rightarrow> RawTraceModel option" where
  "demo_raw_trace history_id =
     (if history_id = 1 then Some \<lparr>rt_history_id = 1, rt_file_path = ''t1.pb''\<rparr>
      else if history_id = 2 then Some \<lparr>rt_history_id = 2, rt_file_path = ''t2.pb''\<rparr>
      else if history_id = 3 then Some \<lparr>rt_history_id = 3, rt_file_path = ''t3.pb''\<rparr>
      else if history_id = 5 then Some \<lparr>rt_history_id = 5, rt_file_path = ''t5.pb''\<rparr>
      else if history_id = 6 then Some \<lparr>rt_history_id = 6, rt_file_path = ''t6.pb''\<rparr>
      else None)"

definition demo_db :: DbHandle where
  "demo_db =
     \<lparr>Package_SelectAll = [demo_package],
      Package_SelectByNameAndVersion =
        (\<lambda>n v. if n = ''com.example'' \<and> v = 7 then Some demo_package else None),
      Activity_SelectByPackageId = (\<lambda>p. if p = 1 then [demo_main, demo_settings] else []),
      Activity_SelectByNameAndPackageId =
        (\<lambda>n p. if p = 1 \<and> n = ''Main'' then Some demo_main
                else if p = 1 \<and> n = ''Settings'' then Some demo_settings
                else None),
      SelectActivityHistoryForCompile = demo_histories,
      RawTrace_SelectByHistoryId = demo_raw_trace,
      PrefetchFile_Insert = (\<lambda>a f. Some \<lparr>pf_activity_id = a, pf_file_path = f\<rparr>),
      PrefetchFile_SelectByVersionedComponentName = (\<lambda>p a v. None)\<rparr>"

text \<open>
  A world in which every fork returns pid 100 to the parent and the child ends with the
  given wait status; \<open>on_disk\<close> says whether a derived output file exists already.
\<close>

definition demo_sys :: "bool \<Rightarrow> int32 \<Rightarrow> system" where
  "demo_sys on_disk wstatus =
     \<lparr>FilePath = (\<lambda>p a v. p @ ''/'' @ a @ ''/compiled_trace.pb''),
      filesystem_exists = (\<lambda>f. on_disk),
      MkdirWithParents = (\<lambda>f. True),
      exec_Fork = (\<lambda>n. 100),
      waitpid_wstatus = (\<lambda>n. wstatus),
      exec_Execve = (\<lambda>n f a. Some (- 1)),
      time_now = 1234,
      PrefetchSizeInBytes = (\<lambda>f. None),
      GetTimestampForPrefetchFile = (\<lambda>f. []),
      TimeToString = (\<lambda>t. [])\<rparr>"

definition demo_params :: "bool \<Rightarrow> uint64 \<Rightarrow> ControllerParameters" where
  "demo_params again least =
     \<lparr>output_text = False, inode_textcache = None, verbose = False,
      recompile = again, min_traces = least\<rparr>"

definition ctl_init :: ctl where
  "ctl_init =
     \<lparr>last_job_info_f = \<lparr>last_run_ns_f = 0, activities_last_compiled_f = 0\<rparr>,
      fork_calls = 0, effects = []\<rparr>"

section \<open>The tracker: facts\<close>

lemma map_find_put: "map_find (map_put k v m) = (map_find m)(k \<mapsto> v)"
  by (induction m) (auto simp: map_find_def fun_eq_iff)

lemma map_find_erase: "map_find (map_erase k m) = (map_find m)(k := None)"
  by (induction m) (auto simp: map_find_def map_erase_def fun_eq_iff)

lemma map_find_assign:
  "map_find (map_assign k v m) x =
     (if x = k \<and> map_find m k \<noteq> None then Some v else map_find m x)"
  by (induction m) (auto simp: map_find_def map_assign_def)

lemma sint_succ:
  assumes "(x :: 64 word) \<noteq> INT64_MAX"
  shows "sint (x + 1) = sint x + 1"
proof -
  have up: "sint x < 2 ^ 63" using sint_lt [of x] by simp
  have lo: "- (2 ^ 63) \<le> sint x" using sint_ge [of x] by simp
  have "sint x \<noteq> 2 ^ 63 - 1"
  proof
    assume "sint x = 2 ^ 63 - 1"
    then have "sint x = sint (0x7FFFFFFFFFFFFFFF :: 64 word)" by simp
    then have "x = 0x7FFFFFFFFFFFFFFF" by (rule signed_word_eqI)
    with assms show False by (simp add: INT64_MAX_def)
  qed
  with up have "sint x + 1 < 2 ^ 63" by simp
  moreover from lo have "- (2 ^ 63) \<le> sint x + 1" by simp
  ultimately have "signed_take_bit 63 (sint x + 1) = sint x + 1"
    by (simp add: signed_take_bit_int_eq_self)
  then show ?thesis by (simp add: sint_word_ariths)
qed

lemma map_find_mem: "map_find m k = Some v \<Longrightarrow> (k, v) \<in> set m"
  by (simp add: map_find_def map_of_SomeD)

lemma next_handle_untracked:
  assumes "tracked_upto_last_created s" and "last_created_f s \<noteq> INT64_MAX"
  shows "map_find (states_f s) (last_created_f s + 1) = None"
proof (rule ccontr)
  assume "map_find (states_f s) (last_created_f s + 1) \<noteq> None"
  then obtain d where "map_find (states_f s) (last_created_f s + 1) = Some d" by auto
  then have "(last_created_f s + 1, d) \<in> set (states_f s)" by (rule map_find_mem)
  with assms(1) have "last_created_f s + 1 \<le>s last_created_f s"
    by (auto simp: tracked_upto_last_created_def list_all_iff)
  then have "sint (last_created_f s + 1) \<le> sint (last_created_f s)"
    by (simp add: word_sle_eq)
  with sint_succ [OF assms(2)] show False by simp
qed

lemma UpdateHandleDescription_kCreated:
  "UpdateHandleDescription r ((indeterminate r)\<lparr>started_tracing_ns_f := None, handle_f := h\<rparr>)
     kCreated =
   \<lparr>handle_f = h, kind_f = kCreated, state_f = raw_PollState r h,
    started_tracing_ns_f = None, last_transition_ns_f = GetTimeNanoseconds r\<rparr>"
  by (simp add: UpdateHandleDescription_def Let_def)

text \<open>
  C3. \<open>Create\<close> aborts whenever the engine's handle is not \<open>last_created_ + 1\<close>. When it is,
  in a state whose tracked handles are all at most \<open>last_created_\<close> and whose counter is
  below the largest 64-bit value, \<open>Create\<close> returns the handle, \<open>last_created_\<close> becomes
  it, and the map holds it in kind \<open>kCreated\<close>, every other entry unchanged.
\<close>

theorem Create_handle_check:
  "(raw_Create r \<noteq> last_created_f s + 1 \<longrightarrow> Create r n s = Inl CHECK_EQ_last_created_handle) \<and>
   (raw_Create r = last_created_f s + 1 \<and> tracked_upto_last_created s \<and>
    last_created_f s \<noteq> INT64_MAX \<longrightarrow>
      (\<exists>s'. Create r n s =
              Inr (raw_Create r, [LOG VERBOSE [Str ''PerfettoConsumer::Create('', Str ''config_len='',
                                               Num (uint n), Str '')'']], s') \<and>
            last_created_f s' = raw_Create r \<and>
            last_destroyed_f s' = last_destroyed_f s \<and>
            map_find (states_f s') (raw_Create r) =
              Some \<lparr>handle_f = raw_Create r, kind_f = kCreated,
                    state_f = raw_PollState r (raw_Create r),
                    started_tracing_ns_f = None,
                    last_transition_ns_f = GetTimeNanoseconds r\<rparr> \<and>
            (\<forall>h. h \<noteq> raw_Create r \<longrightarrow>
                 map_find (states_f s') h = map_find (states_f s) h)))"
proof (intro conjI impI)
  assume "raw_Create r \<noteq> last_created_f s + 1"
  then show "Create r n s = Inl CHECK_EQ_last_created_handle"
    by (auto simp: Create_def Let_def)
next
  assume a: "raw_Create r = last_created_f s + 1 \<and> tracked_upto_last_created s \<and>
             last_created_f s \<noteq> INT64_MAX"
  then have untracked: "map_find (states_f s) (raw_Create r) = None"
    using next_handle_untracked [of s] by simp
  let ?d = "\<lparr>handle_f = raw_Create r, kind_f = kCreated,
             state_f = raw_PollState r (raw_Create r),
             started_tracing_ns_f = None,
             last_transition_ns_f = GetTimeNanoseconds r\<rparr>"
  let ?s' = "s\<lparr>last_created_f := raw_Create r,
               states_f := map_put (raw_Create r) ?d (states_f s)\<rparr>"
  from a untracked have "Create r n s =
              Inr (raw_Create r, [LOG VERBOSE [Str ''PerfettoConsumer::Create('', Str ''config_len='',
                                               Num (uint n), Str '')'']], ?s')"
    by (simp add: Create_def Let_def UpdateHandleDescription_kCreated)
  moreover have "map_find (states_f ?s') (raw_Create r) = Some ?d"
    by (simp add: map_find_put)
  moreover have "\<forall>h. h \<noteq> raw_Create r \<longrightarrow> map_find (states_f ?s') h = map_find (states_f s) h"
    by (simp add: map_find_put)
  ultimately show "\<exists>s'. Create r n s =
              Inr (raw_Create r, [LOG VERBOSE [Str ''PerfettoConsumer::Create('', Str ''config_len='',
                                               Num (uint n), Str '')'']], s') \<and>
            last_created_f s' = raw_Create r \<and>
            last_destroyed_f s' = last_destroyed_f s \<and>
            map_find (states_f s') (raw_Create r) = Some ?d \<and>
            (\<forall>h. h \<noteq> raw_Create r \<longrightarrow>
                 map_find (states_f s') h = map_find (states_f s) h)"
    by (intro exI [of _ ?s']) simp
qed

theorem Create_handle_check_witness:
  "tracked_upto_last_created Impl_init \<and> last_created_f Impl_init \<noteq> INT64_MAX \<and>
   Create (engine 5 10) 64 Impl_init = Inl CHECK_EQ_last_created_handle \<and>
   (\<exists>s'. Create (engine 1 10) 64 Impl_init =
           Inr (1, [LOG VERBOSE [Str ''PerfettoConsumer::Create('', Str ''config_len='', Num 64,
                                 Str '')'']], s') \<and>
         last_created_f s' = 1 \<and>
         map_find (states_f s') 1 =
           Some \<lparr>handle_f = 1, kind_f = kCreated, state_f = 0,
                 started_tracing_ns_f = None, last_transition_ns_f = 10\<rparr>)"
proof -
  have t: "tracked_upto_last_created Impl_init"
    by (simp add: Impl_init_def tracked_upto_last_created_def)
  have m: "last_created_f Impl_init \<noteq> INT64_MAX"
    by (simp add: Impl_init_def INT64_MAX_def)
  have abort: "Create (engine 5 10) 64 Impl_init = Inl CHECK_EQ_last_created_handle"
    using Create_handle_check [of "engine 5 10" Impl_init 64]
    by (simp add: engine_def Impl_init_def)
  have "raw_Create (engine 1 10) = last_created_f Impl_init + 1"
    by (simp add: engine_def Impl_init_def)
  with t m Create_handle_check [of "engine 1 10" Impl_init 64]
  obtain s' where "Create (engine 1 10) 64 Impl_init =
      Inr (raw_Create (engine 1 10),
           [LOG VERBOSE [Str ''PerfettoConsumer::Create('', Str ''config_len='',
                         Num (uint (64 :: size_t)), Str '')'']], s')"
    and "last_created_f s' = raw_Create (engine 1 10)"
    and "map_find (states_f s') (raw_Create (engine 1 10)) =
           Some \<lparr>handle_f = raw_Create (engine 1 10), kind_f = kCreated,
                 state_f = raw_PollState (engine 1 10) (raw_Create (engine 1 10)),
                 started_tracing_ns_f = None,
                 last_transition_ns_f = GetTimeNanoseconds (engine 1 10)\<rparr>"
    by blast
  then have "\<exists>s'. Create (engine 1 10) 64 Impl_init =
           Inr (1, [LOG VERBOSE [Str ''PerfettoConsumer::Create('', Str ''config_len='', Num 64,
                                 Str '')'']], s') \<and>
         last_created_f s' = 1 \<and>
         map_find (states_f s') 1 =
           Some \<lparr>handle_f = 1, kind_f = kCreated, state_f = 0,
                 started_tracing_ns_f = None, last_transition_ns_f = 10\<rparr>"
    by (intro exI [of _ s']) (simp add: engine_def)
  with t m abort show ?thesis by blast
qed

text \<open>
  The hypothesis of C3 holds in every state the tracker reaches from its initial state in
  fewer than \<open>2^63\<close> calls, so there the re-use check of \<open>Create\<close> cannot fire.
\<close>

lemma set_map_put: "set (map_put k v m) \<subseteq> insert (k, v) (set m)"
  by (induction m) (auto split: if_splits)

lemma set_map_assign: "(a, b) \<in> set (map_assign k v m) \<Longrightarrow> \<exists>b'. (a, b') \<in> set m"
  by (induction m) (auto simp: map_assign_def split: if_splits)

lemma set_map_erase: "(a, b) \<in> set (map_erase k m) \<Longrightarrow> (a, b) \<in> set m"
  by (simp add: map_erase_def)

lemma tracked_iff:
  "tracked_upto_last_created s \<longleftrightarrow>
     (\<forall>k d. (k, d) \<in> set (states_f s) \<longrightarrow> k \<le>s last_created_f s)"
  by (auto simp: tracked_upto_last_created_def list_all_iff)

lemma tracked_init: "tracked_upto_last_created Impl_init"
  by (simp add: tracked_upto_last_created_def Impl_init_def)

lemma tracked_Create:
  assumes "tracked_upto_last_created s" and "last_created_f s \<noteq> INT64_MAX"
    and "Create r n s = Inr (h, l, s')"
  shows "tracked_upto_last_created s' \<and> sint (last_created_f s') = sint (last_created_f s) + 1"
proof -
  from assms(3) have lc: "last_created_f s' = last_created_f s + 1"
    and st: "\<exists>d. states_f s' = map_put (last_created_f s + 1) d (states_f s)"
    by (auto simp: Create_def Let_def split: if_splits)
  from st obtain d where d: "states_f s' = map_put (last_created_f s + 1) d (states_f s)" ..
  have step: "sint (last_created_f s + 1) = sint (last_created_f s) + 1"
    by (rule sint_succ [OF assms(2)])
  have "k \<le>s last_created_f s'" if "(k, v) \<in> set (states_f s')" for k v
  proof -
    from that d set_map_put [of "last_created_f s + 1" d "states_f s"]
    have "k = last_created_f s + 1 \<or> (k, v) \<in> set (states_f s)" by auto
    then show ?thesis
    proof
      assume "k = last_created_f s + 1"
      then show ?thesis by (simp add: lc)
    next
      assume "(k, v) \<in> set (states_f s)"
      with assms(1) have "k \<le>s last_created_f s" by (auto simp: tracked_iff)
      with step show ?thesis by (simp add: lc word_sle_eq)
    qed
  qed
  then show ?thesis by (auto simp: tracked_iff lc step)
qed

lemma tracked_mono:
  assumes "tracked_upto_last_created s" and "last_created_f s' = last_created_f s"
    and "\<And>k d. (k, d) \<in> set (states_f s') \<Longrightarrow> \<exists>d'. (k, d') \<in> set (states_f s)"
  shows "tracked_upto_last_created s'"
  unfolding tracked_iff
proof (intro allI impI)
  fix k d
  assume "(k, d) \<in> set (states_f s')"
  then obtain d' where "(k, d') \<in> set (states_f s)" using assms(3) by blast
  with assms(1) have "k \<le>s last_created_f s" unfolding tracked_iff by blast
  with assms(2) show "k \<le>s last_created_f s'" by simp
qed

lemma tracked_StartTracing:
  assumes "tracked_upto_last_created s"
  shows "tracked_upto_last_created (snd (StartTracing r h s))"
proof (rule tracked_mono [OF assms])
  show "last_created_f (snd (StartTracing r h s)) = last_created_f s"
    by (simp add: StartTracing_def Let_def split: option.splits)
next
  fix k d
  assume "(k, d) \<in> set (states_f (snd (StartTracing r h s)))"
  then show "\<exists>d'. (k, d') \<in> set (states_f s)"
    by (cases "map_find (states_f s) h")
       (auto simp: StartTracing_def Let_def dest: set_map_assign)
qed

lemma tracked_ReadTrace:
  assumes "tracked_upto_last_created s"
  shows "tracked_upto_last_created (snd (snd (ReadTrace r h s)))"
proof (rule tracked_mono [OF assms])
  show "last_created_f (snd (snd (ReadTrace r h s))) = last_created_f s"
    by (simp add: ReadTrace_def Let_def split: option.splits)
next
  fix k d
  assume "(k, d) \<in> set (states_f (snd (snd (ReadTrace r h s))))"
  then show "\<exists>d'. (k, d') \<in> set (states_f s)"
    by (cases "map_find (states_f s) h")
       (auto simp: ReadTrace_def Let_def dest: set_map_assign)
qed

lemma tracked_Destroy:
  assumes "tracked_upto_last_created s"
  shows "tracked_upto_last_created (snd (Destroy r h s))"
proof (rule tracked_mono [OF assms])
  show "last_created_f (snd (Destroy r h s)) = last_created_f s"
    by (simp add: Destroy_def Let_def split: option.splits)
next
  fix k d
  assume "(k, d) \<in> set (states_f (snd (Destroy r h s)))"
  then show "\<exists>d'. (k, d') \<in> set (states_f s)"
    by (cases "map_find (states_f s) h")
       (auto simp: Destroy_def Let_def dest!: set_map_erase dest: set_map_assign)
qed

lemma last_created_other_calls:
  "last_created_f (snd (StartTracing r h s)) = last_created_f s"
  "last_created_f (snd (snd (ReadTrace r h s))) = last_created_f s"
  "last_created_f (snd (Destroy r h s)) = last_created_f s"
  by (auto simp: StartTracing_def ReadTrace_def Destroy_def Let_def split: option.splits)

lemma tracked_apply_call:
  assumes "tracked_upto_last_created s" and "sint (last_created_f s) + 1 < 2 ^ 63"
    and "apply_call c s = Inr s'"
  shows "tracked_upto_last_created s' \<and> sint (last_created_f s') \<le> sint (last_created_f s) + 1"
proof (cases c)
  case (CallCreate r n)
  from assms(2) have "last_created_f s \<noteq> INT64_MAX"
    by (auto simp: INT64_MAX_def)
  moreover from assms(3) CallCreate obtain h l where "Create r n s = Inr (h, l, s')"
    by (auto split: sum.splits)
  ultimately show ?thesis using tracked_Create [OF assms(1)] by fastforce
next
  case (CallStartTracing r h)
  with assms show ?thesis by (auto simp: tracked_StartTracing last_created_other_calls)
next
  case (CallReadTrace r h)
  with assms show ?thesis by (auto simp: tracked_ReadTrace last_created_other_calls)
next
  case (CallDestroy r h)
  with assms show ?thesis by (auto simp: tracked_Destroy last_created_other_calls)
qed

lemma tracked_run_calls:
  "run_calls cs s = Inr s' \<Longrightarrow> tracked_upto_last_created s \<Longrightarrow>
   sint (last_created_f s) + int (length cs) < 2 ^ 63 \<Longrightarrow>
   tracked_upto_last_created s' \<and>
   sint (last_created_f s') \<le> sint (last_created_f s) + int (length cs)"
proof (induction cs arbitrary: s)
  case Nil
  then show ?case by simp
next
  case (Cons c cs)
  from Cons.prems(1) obtain s1 where c: "apply_call c s = Inr s1"
    and rest: "run_calls cs s1 = Inr s'"
    by (auto split: sum.splits)
  from Cons.prems(3) have "sint (last_created_f s) + 1 < 2 ^ 63" by simp
  from tracked_apply_call [OF Cons.prems(2) this c]
  have t1: "tracked_upto_last_created s1"
    and b1: "sint (last_created_f s1) \<le> sint (last_created_f s) + 1" by auto
  from b1 Cons.prems(3) have "sint (last_created_f s1) + int (length cs) < 2 ^ 63" by simp
  from Cons.IH [OF rest t1 this] b1 show ?case by simp
qed

lemma reachable_tracked:
  assumes "run_calls cs Impl_init = Inr s" and "length cs < 2 ^ 63 - 1"
  shows "tracked_upto_last_created s \<and> last_created_f s \<noteq> INT64_MAX"
proof -
  have z: "sint (last_created_f Impl_init) = 0" by (simp add: Impl_init_def)
  from assms(2) have "int (length cs) < int (2 ^ 63 - 1)"
    by (simp only: of_nat_less_iff)
  then have "int (length cs) < 2 ^ 63 - 1" by simp
  with z have b: "sint (last_created_f Impl_init) + int (length cs) < 2 ^ 63" by simp
  from tracked_run_calls [OF assms(1) tracked_init b] z
  have t: "tracked_upto_last_created s" and le: "sint (last_created_f s) \<le> int (length cs)"
    by auto
  have "last_created_f s \<noteq> INT64_MAX"
  proof
    assume "last_created_f s = INT64_MAX"
    then have "sint (last_created_f s) = 2 ^ 63 - 1" by (simp add: INT64_MAX_def)
    with le \<open>int (length cs) < 2 ^ 63 - 1\<close> show False by simp
  qed
  with t show ?thesis by simp
qed

subsection \<open>Classification of untracked handles\<close>

lemma run_created_123:
  "run_calls created_123 Impl_init =
     Inr \<lparr>states_f =
            [(1, \<lparr>handle_f = 1, kind_f = kCreated, state_f = 0,
                  started_tracing_ns_f = None, last_transition_ns_f = 10\<rparr>),
             (2, \<lparr>handle_f = 2, kind_f = kCreated, state_f = 0,
                  started_tracing_ns_f = None, last_transition_ns_f = 20\<rparr>),
             (3, \<lparr>handle_f = 3, kind_f = kCreated, state_f = 0,
                  started_tracing_ns_f = None, last_transition_ns_f = 30\<rparr>)],
          last_created_f = 3, last_destroyed_f = 0\<rparr>"
  by (simp add: created_123_def engine_def Impl_init_def Create_def Let_def
        UpdateHandleDescription_def map_find_def word_sless_alt)

lemma run_calls_append:
  "run_calls (cs @ ds) s =
     (case run_calls cs s of Inl e \<Rightarrow> Inl e | Inr s' \<Rightarrow> run_calls ds s')"
  by (induction cs arbitrary: s) (auto split: sum.splits)

lemma run_destroyed_3:
  "run_calls destroyed_3 Impl_init =
     Inr \<lparr>states_f =
            [(1, \<lparr>handle_f = 1, kind_f = kCreated, state_f = 0,
                  started_tracing_ns_f = None, last_transition_ns_f = 10\<rparr>),
             (2, \<lparr>handle_f = 2, kind_f = kCreated, state_f = 0,
                  started_tracing_ns_f = None, last_transition_ns_f = 20\<rparr>)],
          last_created_f = 3, last_destroyed_f = 3\<rparr>"
  by (simp add: destroyed_3_def run_calls_append run_created_123 Destroy_def Let_def
        map_find_def map_assign_def map_erase_def)

lemma run_destroyed_3_2:
  "run_calls destroyed_3_2 Impl_init =
     Inr \<lparr>states_f =
            [(1, \<lparr>handle_f = 1, kind_f = kCreated, state_f = 0,
                  started_tracing_ns_f = None, last_transition_ns_f = 10\<rparr>)],
          last_created_f = 3, last_destroyed_f = 2\<rparr>"
  by (simp add: destroyed_3_2_def run_calls_append run_destroyed_3 Destroy_def Let_def
        map_find_def map_assign_def map_erase_def)

text \<open>
  C10. \<open>Destroy\<close> of a tracked handle assigns that handle to \<open>last_destroyed_\<close>, whatever
  the old value. After creating 1, 2, 3 and destroying 3, \<open>last_destroyed_\<close> is 3; after
  then destroying 2 it is 2: it went down. In that state handle 3, created and destroyed,
  is untracked, \<open>IsUncreated\<close> holds of it, \<open>IsDestroyed\<close> does not, and
  \<open>GetOrInferHandleDescription\<close> returns the description it declared, without a warning.
\<close>

theorem Destroy_last_destroyed_not_monotone:
  "(map_find (states_f s) h \<noteq> None \<longrightarrow> last_destroyed_f (snd (Destroy r h s)) = h) \<and>
   run_calls destroyed_3 Impl_init = Inr (state_after destroyed_3) \<and>
   run_calls destroyed_3_2 Impl_init = Inr (state_after destroyed_3_2) \<and>
   last_destroyed_f (state_after destroyed_3) = 3 \<and>
   last_destroyed_f (state_after destroyed_3_2) = 2 \<and>
   last_destroyed_f (state_after destroyed_3_2) <s last_destroyed_f (state_after destroyed_3) \<and>
   last_created_f (state_after destroyed_3_2) = 3 \<and>
   map_find (states_f (state_after destroyed_3_2)) 3 = None \<and>
   IsUncreated k (state_after destroyed_3_2) 3 \<and>
   \<not> IsDestroyed k (state_after destroyed_3_2) 3 \<and>
   GetOrInferHandleDescription k r (state_after destroyed_3_2) 3 =
     ((indeterminate r)\<lparr>started_tracing_ns_f := None\<rparr>, [])"
proof -
  have assign: "map_find (states_f s) h \<noteq> None \<longrightarrow> last_destroyed_f (snd (Destroy r h s)) = h"
    by (auto simp: Destroy_def Let_def)
  have s2: "state_after destroyed_3_2 =
      \<lparr>states_f =
         [(1, \<lparr>handle_f = 1, kind_f = kCreated, state_f = 0,
               started_tracing_ns_f = None, last_transition_ns_f = 10\<rparr>)],
       last_created_f = 3, last_destroyed_f = 2\<rparr>"
    by (simp add: state_after_def run_destroyed_3_2)
  have s1: "last_destroyed_f (state_after destroyed_3) = 3"
    by (simp add: state_after_def run_destroyed_3)
  have r1: "run_calls destroyed_3 Impl_init = Inr (state_after destroyed_3)"
    by (simp add: state_after_def run_destroyed_3)
  have r2: "run_calls destroyed_3_2 Impl_init = Inr (state_after destroyed_3_2)"
    by (simp add: state_after_def run_destroyed_3_2)
  have u: "IsUncreated k (state_after destroyed_3_2) 3"
    by (simp add: s2 IsUncreated_def map_find_def)
  have d: "\<not> IsDestroyed k (state_after destroyed_3_2) 3"
    by (simp add: s2 IsDestroyed_def map_find_def)
  have f: "map_find (states_f (state_after destroyed_3_2)) 3 = None"
    by (simp add: s2 map_find_def)
  have g: "GetOrInferHandleDescription k r (state_after destroyed_3_2) 3 =
     ((indeterminate r)\<lparr>started_tracing_ns_f := None\<rparr>, [])"
    using u d f by (simp add: GetOrInferHandleDescription_def Let_def)
  have lt: "last_destroyed_f (state_after destroyed_3_2) <s last_destroyed_f (state_after destroyed_3)"
    by (simp add: s1 s2)
  from assign r1 r2 s1 u d f g lt show ?thesis by (simp add: s2)
qed

theorem Destroy_last_destroyed_not_monotone_witness:
  "map_find (states_f (state_after destroyed_3)) 2 \<noteq> None \<and>
   last_destroyed_f (state_after destroyed_3) = 3 \<and>
   last_destroyed_f (snd (Destroy (engine 0 50) 2 (state_after destroyed_3))) = 2"
proof -
  have "map_find (states_f (state_after destroyed_3)) 2 \<noteq> None"
    by (simp add: state_after_def run_destroyed_3 map_find_def)
  with Destroy_last_destroyed_not_monotone
         [of "state_after destroyed_3" 2 "engine 0 50" 0]
  show ?thesis by simp
qed

text \<open>
  C2, as stated, fails. In the state after creating 1, 2, 3 and destroying 3, then 2,
  handle 3 is untracked and \<open>IsUncreated\<close> holds of it (no warning, kind not set to
  \<open>kDestroyed\<close>), although 3 is not above \<open>last_created_\<close>, which is 3.
\<close>

theorem untracked_Uncreated_counterexample:
  "map_find (states_f (state_after destroyed_3_2)) 3 = None \<and>
   IsUncreated (- 1) (state_after destroyed_3_2) 3 \<and>
   GetOrInferHandleDescription (- 1) (engine 0 60) (state_after destroyed_3_2) 3 =
     (indeterminate (engine 0 60), []) \<and>
   \<not> last_created_f (state_after destroyed_3_2) <s 3"
  by (simp add: state_after_def run_destroyed_3_2 map_find_def IsUncreated_def
        IsDestroyed_def GetOrInferHandleDescription_def Let_def engine_def)

text \<open>
  C2, amended. For a handle that is not tracked, \<open>IsDestroyed\<close> holds exactly when the
  handle is not \<open>kInvalidHandle\<close> and is at most \<open>last_destroyed_\<close>; \<open>IsUncreated\<close> holds
  exactly when it is \<open>kInvalidHandle\<close> or above \<open>last_destroyed_\<close>; exactly one of the two
  holds. \<open>GetOrInferHandleDescription\<close> sets the kind \<open>kDestroyed\<close> in the first case,
  returns its local as declared in the second, and never logs the warning.
\<close>

theorem untracked_classification:
  assumes "map_find (states_f s) h = None"
  shows "(IsDestroyed k s h \<longleftrightarrow> h \<noteq> k \<and> h \<le>s last_destroyed_f s) \<and>
         (IsUncreated k s h \<longleftrightarrow> h = k \<or> last_destroyed_f s <s h) \<and>
         (IsDestroyed k s h \<longleftrightarrow> \<not> IsUncreated k s h) \<and>
         GetOrInferHandleDescription k r s h =
           (if IsDestroyed k s h
            then ((indeterminate r)\<lparr>started_tracing_ns_f := None, kind_f := kDestroyed,
                    state_f := raw_PollState r (handle_f (indeterminate r)),
                    last_transition_ns_f := GetTimeNanoseconds r\<rparr>, [])
            else ((indeterminate r)\<lparr>started_tracing_ns_f := None\<rparr>, []))"
proof -
  have d: "IsDestroyed k s h \<longleftrightarrow> h \<noteq> k \<and> h \<le>s last_destroyed_f s"
    using assms by (simp add: IsDestroyed_def)
  have u: "IsUncreated k s h \<longleftrightarrow> h = k \<or> last_destroyed_f s <s h"
    using assms by (simp add: IsUncreated_def)
  have x: "IsDestroyed k s h \<longleftrightarrow> \<not> IsUncreated k s h"
    unfolding d u by (auto simp: signed.not_less)
  have g: "GetOrInferHandleDescription k r s h =
           (if IsDestroyed k s h
            then ((indeterminate r)\<lparr>started_tracing_ns_f := None, kind_f := kDestroyed,
                    state_f := raw_PollState r (handle_f (indeterminate r)),
                    last_transition_ns_f := GetTimeNanoseconds r\<rparr>, [])
            else ((indeterminate r)\<lparr>started_tracing_ns_f := None\<rparr>, []))"
    using assms x
    by (simp add: GetOrInferHandleDescription_def Let_def UpdateHandleDescription_def)
  from d u x g show ?thesis by blast
qed

theorem untracked_classification_witness:
  "map_find (states_f (state_after destroyed_3_2)) 2 = None \<and>
   IsDestroyed (- 1) (state_after destroyed_3_2) 2 \<and>
   \<not> IsUncreated (- 1) (state_after destroyed_3_2) 2 \<and>
   kind_f (fst (GetOrInferHandleDescription (- 1) (engine 0 60) (state_after destroyed_3_2) 2))
     = kDestroyed"
proof -
  have n: "map_find (states_f (state_after destroyed_3_2)) 2 = None"
    by (simp add: state_after_def run_destroyed_3_2 map_find_def)
  have l: "last_destroyed_f (state_after destroyed_3_2) = 2"
    by (simp add: state_after_def run_destroyed_3_2)
  from untracked_classification [OF n, of "- 1" "engine 0 60"] n l
  show ?thesis by simp
qed

section \<open>The package-version cache: facts\<close>

text \<open>
  C8. A cached name is answered from the map: no query goes to the remote and the map is
  unchanged. An absent name sends one single-package query. When that answers a version,
  the version is returned and written into the map, so that asking again (whatever the
  remote would say then) returns it with no query. When it answers nothing, the result is
  \<open>-1\<close> and the map is unchanged.
\<close>

theorem GetOrQueryPackageVersion_cache:
  "(version_map_f m name = Some v \<longrightarrow>
      GetOrQueryPackageVersion pm name m = (v, [], [], m)) \<and>
   (version_map_f m name = None \<and> GetPackageVersion pm name = Some v \<longrightarrow>
      (\<exists>logs m'. GetOrQueryPackageVersion pm name m =
                    (v, [Query_GetPackageVersion name], logs, m') \<and>
                  version_map_f m' = (version_map_f m)(name \<mapsto> v) \<and>
                  GetOrQueryPackageVersion pm' name m' = (v, [], [], m'))) \<and>
   (version_map_f m name = None \<and> GetPackageVersion pm name = None \<longrightarrow>
      (\<exists>logs. GetOrQueryPackageVersion pm name m =
                 (- 1, [Query_GetPackageVersion name], logs, m)))"
  by (simp add: GetOrQueryPackageVersion_def)

theorem GetOrQueryPackageVersion_cache_witness:
  "(\<exists>m0 q0. PackageVersionMap_Create
              (Some \<lparr>GetPackageVersionMap = [''pkg'' \<mapsto> 1],
                     GetPackageVersion = (\<lambda>n. if n = ''other'' then Some 2 else None)\<rparr>)
            = Some (m0, q0) \<and>
      version_map_f m0 ''pkg'' = Some 1 \<and>
      version_map_f m0 ''other'' = None \<and>
      version_map_f m0 ''none'' = None \<and>
      GetOrQueryPackageVersion
        \<lparr>GetPackageVersionMap = Map.empty, GetPackageVersion = (\<lambda>n. None)\<rparr> ''pkg'' m0
        = (1, [], [], m0) \<and>
      (\<exists>logs. GetOrQueryPackageVersion
        \<lparr>GetPackageVersionMap = Map.empty, GetPackageVersion = (\<lambda>n. None)\<rparr> ''none'' m0
        = (- 1, [Query_GetPackageVersion ''none''], logs, m0)) \<and>
      (\<exists>logs m1. GetOrQueryPackageVersion
          \<lparr>GetPackageVersionMap = Map.empty,
           GetPackageVersion = (\<lambda>n. if n = ''other'' then Some 2 else None)\<rparr> ''other'' m0
          = (2, [Query_GetPackageVersion ''other''], logs, m1) \<and>
        GetOrQueryPackageVersion
          \<lparr>GetPackageVersionMap = Map.empty, GetPackageVersion = (\<lambda>n. None)\<rparr> ''other'' m1
          = (2, [], [], m1)))"
proof -
  let ?pm = "\<lparr>GetPackageVersionMap = [''pkg'' \<mapsto> (1 :: int64)],
              GetPackageVersion = (\<lambda>n. if n = ''other'' then Some (2 :: int64) else None)\<rparr>"
  let ?on = "\<lparr>GetPackageVersionMap = (Map.empty :: VersionMap),
              GetPackageVersion = (\<lambda>n. if n = ''other'' then Some (2 :: int64) else None)\<rparr>"
  let ?off = "\<lparr>GetPackageVersionMap = (Map.empty :: VersionMap),
               GetPackageVersion = (\<lambda>n :: string. None :: int64 option)\<rparr>"
  let ?m0 = "\<lparr>version_map_f = [''pkg'' \<mapsto> (1 :: int64)]\<rparr>"
  have c: "PackageVersionMap_Create (Some ?pm) = Some (?m0, [Query_GetPackageVersionMap])"
    by (simp add: PackageVersionMap_Create_def)
  have a: "version_map_f ?m0 ''pkg'' = Some 1" by simp
  have b: "version_map_f ?m0 ''other'' = None" by simp
  have n: "version_map_f ?m0 ''none'' = None" by simp
  have hit: "GetOrQueryPackageVersion ?off ''pkg'' ?m0 = (1, [], [], ?m0)"
    using GetOrQueryPackageVersion_cache [of ?m0 "''pkg''" 1 ?off] a by simp
  have miss: "\<exists>logs. GetOrQueryPackageVersion ?off ''none'' ?m0
                 = (- 1, [Query_GetPackageVersion ''none''], logs, ?m0)"
    using GetOrQueryPackageVersion_cache [of ?m0 "''none''" 0 ?off] n by simp
  have fill: "\<exists>logs m1. GetOrQueryPackageVersion ?on ''other'' ?m0
                 = (2, [Query_GetPackageVersion ''other''], logs, m1) \<and>
               GetOrQueryPackageVersion ?off ''other'' m1 = (2, [], [], m1)"
    using GetOrQueryPackageVersion_cache [of ?m0 "''other''" 2 ?on ?off] b by auto
  from c a b n hit miss fill show ?thesis by blast
qed

section \<open>The controller: facts\<close>

subsection \<open>Compilation inputs\<close>

lemma GetPerfettoTraceInfo_loop_eq:
  "GetPerfettoTraceInfo_loop db histories (perfetto_traces, logs) =
     (perfetto_traces @ concat (map (compilation_input_of db) histories),
      logs @ concat (map (history_logs db) histories))"
proof (induction histories arbitrary: perfetto_traces logs)
  case Nil
  show ?case by simp
next
  case (Cons history histories)
  show ?case
    by (simp add: Cons.IH compilation_input_of_def history_logs_def
          effective_timestamp_limit_def UINT64_MAX_def split: option.splits)
qed

text \<open>
  C4. The vector \<open>GetPerfettoTraceInfo\<close> returns holds, in order, one input for each
  history that has a raw-trace row and none for a history without; the input's limit is
  the report-fully-drawn time when set, else the total time when set, else the largest
  64-bit unsigned value; and the log holds one error for each history without a raw trace
  and one for each history with a raw trace and neither time.
\<close>

theorem GetPerfettoTraceInfo_effective_limit:
  "GetPerfettoTraceInfo db histories =
     (concat (map (compilation_input_of db) histories),
      concat (map (history_logs db) histories))"
  by (simp add: GetPerfettoTraceInfo_def GetPerfettoTraceInfo_loop_eq)

theorem GetPerfettoTraceInfo_effective_limit_witness:
  "GetPerfettoTraceInfo demo_db (demo_histories 10) =
     ([\<lparr>filename = ''t1.pb'', timestamp_limit_ns = 100\<rparr>,
       \<lparr>filename = ''t2.pb'', timestamp_limit_ns = 200\<rparr>,
       \<lparr>filename = ''t3.pb'', timestamp_limit_ns = 300\<rparr>],
      [LOG ERROR [Str ''Cannot find raw trace for history_id: '', Num 4]]) \<and>
   GetPerfettoTraceInfo demo_db (demo_histories 11) =
     ([\<lparr>filename = ''t5.pb'', timestamp_limit_ns = 18446744073709551615\<rparr>,
       \<lparr>filename = ''t6.pb'', timestamp_limit_ns = 600\<rparr>],
      [LOG ERROR [Str '' No timestamp exists. Using the max value.'']])"
  using GetPerfettoTraceInfo_effective_limit [of demo_db "demo_histories 10"]
        GetPerfettoTraceInfo_effective_limit [of demo_db "demo_histories 11"]
  by (simp add: demo_db_def demo_histories_def demo_raw_trace_def compilation_input_of_def
        history_logs_def effective_timestamp_limit_def)

lemma UINT64_MAX_minus_1: "UINT64_MAX = - 1"
  by (simp add: UINT64_MAX_def)

lemma UINT64_MAX_greatest: "x \<le> UINT64_MAX"
  by (simp add: UINT64_MAX_minus_1)

lemma unat_UINT64_MAX: "unat UINT64_MAX = 2 ^ 64 - 1"
  by (simp add: UINT64_MAX_def)

subsection \<open>Job info, evidence threshold\<close>

lemma effects_emit [simp]: "effects (emit e s) = effects s @ [e]"
  and job_emit [simp]: "last_job_info_f (emit e s) = last_job_info_f s"
  and forks_emit [simp]: "fork_calls (emit e s) = fork_calls s"
  by (simp_all add: emit_def)

lemma effects_emit_logs [simp]: "effects (emit_logs ls s) = effects s @ map Logged ls"
  and job_emit_logs [simp]: "last_job_info_f (emit_logs ls s) = last_job_info_f s"
  and forks_emit_logs [simp]: "fork_calls (emit_logs ls s) = fork_calls s"
  by (simp_all add: emit_logs_def)

lemma StartViaFork_facts:
  assumes "StartViaFork sys p s = (r, s')"
  shows "last_job_info_f s' = last_job_info_f s"
    and "fork_calls s' = Suc (fork_calls s)"
    and "\<exists>new. effects s' = effects s @ Fork_called (exec_Fork sys (fork_calls s)) # new"
  using assms
  by (auto simp: StartViaFork_def Let_def split: if_splits option.splits)

lemma CompileActivity_job:
  assumes "CompileActivity sys db pid pn an v params s = (r, s')"
  shows "last_run_ns_f (last_job_info_f s') = last_run_ns_f (last_job_info_f s)"
    and "activities_last_compiled_f (last_job_info_f s') =
          activities_last_compiled_f (last_job_info_f s)
          + (if attempted sys db params pid pn an v then 1 else 0)"
  using assms
  by (auto simp: CompileActivity_def attempted_def evidence_count_def Let_def
        split: if_splits option.splits prod.splits sum.splits bool.splits
        dest: StartViaFork_facts(1))

lemma CompilePackage_loop_job:
  "CompilePackage_loop sys db package version params activities ret s = (Inr r, s') \<Longrightarrow>
   last_run_ns_f (last_job_info_f s') = last_run_ns_f (last_job_info_f s) \<and>
   activities_last_compiled_f (last_job_info_f s') =
     activities_last_compiled_f (last_job_info_f s)
     + of_nat (attempted_in_package sys db params package version activities)"
proof (induction activities arbitrary: ret s)
  case Nil
  then show ?case by (simp add: attempted_in_package_def)
next
  case (Cons activity activities)
  from Cons.prems obtain ok s1 where
    one: "CompileActivity sys db (pkg_id package) (pkg_name package) (act_name activity)
            version params s = (Inr ok, s1)"
    and rest: "CompilePackage_loop sys db package version params activities
                 (if \<not> ok then False else ret) s1 = (Inr r, s')"
    by (auto split: prod.splits sum.splits)
  from CompileActivity_job [OF one] Cons.IH [OF rest]
  show ?case by (simp add: attempted_in_package_def)
qed

lemma CompilePackage_job:
  assumes "CompilePackage sys db package_name version params s = (Inr r, s')"
  shows "last_run_ns_f (last_job_info_f s') = last_run_ns_f (last_job_info_f s) \<and>
   activities_last_compiled_f (last_job_info_f s') =
     activities_last_compiled_f (last_job_info_f s)
     + of_nat (case Package_SelectByNameAndVersion db package_name version of
                 None \<Rightarrow> 0
               | Some package \<Rightarrow>
                   attempted_in_package sys db params package version
                     (Activity_SelectByPackageId db (pkg_id package)))"
proof (cases "Package_SelectByNameAndVersion db package_name version")
  case None
  with assms show ?thesis by (auto simp: CompilePackage_def)
next
  case (Some package)
  with assms CompilePackage_loop_job show ?thesis by (simp add: CompilePackage_def)
qed

lemma CompileAppsOnDevice_loop_job:
  "CompileAppsOnDevice_loop sys db params packages ret s = (Inr r, s') \<Longrightarrow>
   last_run_ns_f (last_job_info_f s') = last_run_ns_f (last_job_info_f s) \<and>
   activities_last_compiled_f (last_job_info_f s') =
     activities_last_compiled_f (last_job_info_f s)
     + of_nat (sum_list (map (attempted_of_row sys db params) packages))"
proof (induction packages arbitrary: ret s)
  case Nil
  then show ?case by simp
next
  case (Cons package packages)
  from Cons.prems obtain ok s1 where
    one: "CompilePackage sys db (pkg_name package) (pkg_version package) params s = (Inr ok, s1)"
    and rest: "CompileAppsOnDevice_loop sys db params packages
                 (if \<not> ok then False else ret) s1 = (Inr r, s')"
    by (auto split: prod.splits sum.splits)
  from CompilePackage_job [OF one] Cons.IH [OF rest]
  show ?case by (simp add: attempted_of_row_def)
qed

lemmas wait_defs = WIFEXITED_def WTERMSIG_def WEXITSTATUS_def

lemma demo_db_simps:
  "Package_SelectAll demo_db = [demo_package]"
  "Package_SelectByNameAndVersion demo_db ''com.example'' 7 = Some demo_package"
  "Activity_SelectByPackageId demo_db 1 = [demo_main, demo_settings]"
  "Activity_SelectByNameAndPackageId demo_db ''Main'' 1 = Some demo_main"
  "Activity_SelectByNameAndPackageId demo_db ''Settings'' 1 = Some demo_settings"
  "Activity_SelectByNameAndPackageId demo_db ''Gone'' 1 = None"
  "SelectActivityHistoryForCompile demo_db = demo_histories"
  "RawTrace_SelectByHistoryId demo_db = demo_raw_trace"
  "PrefetchFile_Insert demo_db a f = Some \<lparr>pf_activity_id = a, pf_file_path = f\<rparr>"
  by (simp_all add: demo_db_def)

lemma demo_row_simps:
  "pkg_id demo_package = 1" "pkg_name demo_package = ''com.example''"
  "pkg_version demo_package = 7"
  "act_id demo_main = 10" "act_name demo_main = ''Main''"
  "act_id demo_settings = 11" "act_name demo_settings = ''Settings''"
  by (simp_all add: demo_package_def demo_main_def demo_settings_def)

lemma demo_sys_simps:
  "FilePath (demo_sys d w) p a v = p @ ''/'' @ a @ ''/compiled_trace.pb''"
  "filesystem_exists (demo_sys d w) f = d"
  "MkdirWithParents (demo_sys d w) f = True"
  "exec_Fork (demo_sys d w) n = 100"
  "waitpid_wstatus (demo_sys d w) n = w"
  "time_now (demo_sys d w) = 1234"
  by (simp_all add: demo_sys_def)

lemma demo_params_simps:
  "recompile (demo_params again least) = again"
  "min_traces (demo_params again least) = least"
  "inode_textcache (demo_params again least) = None"
  "verbose (demo_params again least) = False"
  "output_text (demo_params again least) = False"
  by (simp_all add: demo_params_def)

lemmas demo_simps = demo_db_simps demo_row_simps demo_sys_simps demo_params_simps

lemma demo_traces_main:
  "GetPerfettoTraceInfo demo_db (demo_histories 10) =
     ([\<lparr>filename = ''t1.pb'', timestamp_limit_ns = 100\<rparr>,
       \<lparr>filename = ''t2.pb'', timestamp_limit_ns = 200\<rparr>,
       \<lparr>filename = ''t3.pb'', timestamp_limit_ns = 300\<rparr>],
      [LOG ERROR [Str ''Cannot find raw trace for history_id: '', Num 4]])"
  by (simp add: GetPerfettoTraceInfo_def demo_db_simps demo_histories_def demo_raw_trace_def)

lemma demo_traces_settings:
  "GetPerfettoTraceInfo demo_db (demo_histories 11) =
     ([\<lparr>filename = ''t5.pb'', timestamp_limit_ns = UINT64_MAX\<rparr>,
       \<lparr>filename = ''t6.pb'', timestamp_limit_ns = 600\<rparr>],
      [LOG ERROR [Str '' No timestamp exists. Using the max value.'']])"
  by (simp add: GetPerfettoTraceInfo_def demo_db_simps demo_histories_def demo_raw_trace_def)

lemma demo_StartViaFork:
  "fst (StartViaFork (demo_sys d w) p s) = Inr (WIFEXITED w)"
  by (simp add: StartViaFork_def Let_def demo_sys_simps word_sless_alt)

lemma demo_compile_main:
  "fst (CompileActivity (demo_sys False w) demo_db 1 ''com.example'' ''Main'' 7
          (demo_params True 3) s) = Inr (WIFEXITED w)"
  by (simp add: CompileActivity_def Let_def demo_simps demo_traces_main case_prod_beta
        demo_StartViaFork split: bool.splits)

lemma demo_compile_settings:
  "fst (CompileActivity (demo_sys False w) demo_db 1 ''com.example'' ''Settings'' 7
          (demo_params True 3) s) = Inr False"
  by (simp add: CompileActivity_def Let_def demo_simps demo_traces_settings)

lemma demo_pass:
  "fst (CompileAppsOnDevice (demo_sys False w) demo_db (demo_params True 3) s) = Inr False"
  by (simp add: CompileAppsOnDevice_def CompilePackage_def Let_def demo_simps case_prod_beta
        demo_compile_main demo_compile_settings)

text \<open>
  C6. A device-wide pass that returns leaves \<open>activities_last_compiled_\<close> equal to the
  number of activities of the walk for which \<open>CompileActivity\<close> reached the evidence check
  and passed it: the counter is set to 0 first and goes up by one at each such activity and
  at no other, whatever the wait status of the child and whatever the counter held before.
  \<open>last_run_ns_\<close> is then the current time, whether the pass returns true or false.
\<close>

theorem CompileAppsOnDevice_job_info:
  assumes "CompileAppsOnDevice sys db params s = (Inr ret, s')"
  shows "activities_last_compiled_f (last_job_info_f s') =
           of_nat (attempted_on_device sys db params) \<and>
         last_run_ns_f (last_job_info_f s') = time_now sys"
proof -
  let ?s1 = "s\<lparr>last_job_info_f := (last_job_info_f s)\<lparr>activities_last_compiled_f := 0\<rparr>\<rparr>"
  from assms obtain s2 where
    loop: "CompileAppsOnDevice_loop sys db params (Package_SelectAll db) True ?s1 = (Inr ret, s2)"
    and s': "s' = s2\<lparr>last_job_info_f := (last_job_info_f s2)\<lparr>last_run_ns_f := time_now sys\<rparr>\<rparr>"
    by (auto simp: CompileAppsOnDevice_def Let_def split: prod.splits sum.splits)
  from CompileAppsOnDevice_loop_job [OF loop] s'
  show ?thesis by (simp add: attempted_on_device_def)
qed

theorem CompileAppsOnDevice_job_info_witness:
  "fst (CompileAppsOnDevice (demo_sys False 9) demo_db (demo_params True 3) ctl_init)
     = Inr False \<and>
   \<not> WIFEXITED 9 \<and>
   attempted_on_device (demo_sys False 9) demo_db (demo_params True 3) = 1 \<and>
   activities_last_compiled_f (last_job_info_f
     (snd (CompileAppsOnDevice (demo_sys False 9) demo_db (demo_params True 3) ctl_init))) = 1 \<and>
   last_run_ns_f (last_job_info_f
     (snd (CompileAppsOnDevice (demo_sys False 9) demo_db (demo_params True 3) ctl_init)))
     = 1234"
proof -
  let ?run = "CompileAppsOnDevice (demo_sys False 9) demo_db (demo_params True 3) ctl_init"
  have run: "?run = (Inr False, snd ?run)"
    using demo_pass [of 9 ctl_init] by (metis prod.collapse)
  have n: "attempted_on_device (demo_sys False 9) demo_db (demo_params True 3) = 1"
    by (simp add: attempted_on_device_def attempted_of_row_def attempted_in_package_def
          attempted_def evidence_count_def demo_simps demo_traces_main demo_traces_settings)
  have k: "\<not> WIFEXITED 9" by (simp add: wait_defs)
  from CompileAppsOnDevice_job_info [OF run] n k demo_pass [of 9 ctl_init] show ?thesis
    by (simp add: demo_simps)
qed

text \<open>
  C5. In a call of \<open>CompileActivity\<close> that gets to the evidence check (not answered from an
  existing output file, activity found): when the number of compilation inputs is below
  \<open>min_traces\<close> the call returns false, the job info and the number of forks are
  unchanged, and the only calls it made are log entries (no mkdir, no fork, no insert);
  when \<open>min_traces\<close> is 0 the counter goes up by one, the output directory is made, and
  unless that fails a child is forked.
\<close>

theorem CompileActivity_evidence_threshold:
  assumes "recompile params \<or> \<not> filesystem_exists sys (FilePath sys pn an v)"
    and "Activity_SelectByNameAndPackageId db an pid = Some activity"
    and "CompileActivity sys db pid pn an v params s = (r, s')"
  shows "(evidence_count db activity < unat (min_traces params) \<longrightarrow>
            r = Inr False \<and> last_job_info_f s' = last_job_info_f s \<and>
            fork_calls s' = fork_calls s \<and> list_all is_Logged (new_effects s s')) \<and>
         (min_traces params = 0 \<longrightarrow>
            activities_last_compiled_f (last_job_info_f s') =
              activities_last_compiled_f (last_job_info_f s) + 1 \<and>
            Mkdir_called (FilePath sys pn an v) (MkdirWithParents sys (FilePath sys pn an v))
              \<in> set (new_effects s s') \<and>
            (MkdirWithParents sys (FilePath sys pn an v) \<longrightarrow>
               Fork_called (exec_Fork sys (fork_calls s)) \<in> set (new_effects s s')))"
proof (intro conjI impI)
  assume few: "evidence_count db activity < unat (min_traces params)"
  with assms show "r = Inr False" "last_job_info_f s' = last_job_info_f s"
    "fork_calls s' = fork_calls s" "list_all is_Logged (new_effects s s')"
    by (auto simp: CompileActivity_def evidence_count_def Let_def emit_def emit_logs_def
          new_effects_def list_all_iff split: prod.splits)
next
  assume zero: "min_traces params = 0"
  then have pass: "attempted sys db params pid pn an v"
    using assms(1,2) by (simp add: attempted_def)
  from CompileActivity_job(2) [OF assms(3)] pass
  show "activities_last_compiled_f (last_job_info_f s') =
          activities_last_compiled_f (last_job_info_f s) + 1" by simp
  from zero assms
  show "Mkdir_called (FilePath sys pn an v) (MkdirWithParents sys (FilePath sys pn an v))
              \<in> set (new_effects s s')"
    by (auto simp: CompileActivity_def Let_def new_effects_def
          split: prod.splits sum.splits bool.splits option.splits if_splits
          dest!: StartViaFork_facts(3))
  from zero assms
  show "MkdirWithParents sys (FilePath sys pn an v) \<Longrightarrow>
               Fork_called (exec_Fork sys (fork_calls s)) \<in> set (new_effects s s')"
    by (auto simp: CompileActivity_def Let_def new_effects_def
          split: prod.splits sum.splits bool.splits option.splits if_splits
          dest!: StartViaFork_facts(3))
qed

theorem CompileActivity_evidence_threshold_witness:
  "recompile (demo_params True 3) \<and>
   Activity_SelectByNameAndPackageId demo_db ''Settings'' 1 = Some demo_settings \<and>
   evidence_count demo_db demo_settings = 2 \<and>
   unat (min_traces (demo_params True 3)) = 3 \<and>
   fst (CompileActivity (demo_sys False 0) demo_db 1 ''com.example'' ''Settings'' 7
          (demo_params True 3) ctl_init) = Inr False \<and>
   last_job_info_f (snd (CompileActivity (demo_sys False 0) demo_db 1 ''com.example''
          ''Settings'' 7 (demo_params True 3) ctl_init)) = last_job_info_f ctl_init \<and>
   fork_calls (snd (CompileActivity (demo_sys False 0) demo_db 1 ''com.example''
          ''Settings'' 7 (demo_params True 3) ctl_init)) = 0 \<and>
   list_all is_Logged (new_effects ctl_init
      (snd (CompileActivity (demo_sys False 0) demo_db 1 ''com.example'' ''Settings'' 7
          (demo_params True 3) ctl_init))) \<and>
   min_traces (demo_params True 0) = 0 \<and>
   activities_last_compiled_f (last_job_info_f
      (snd (CompileActivity (demo_sys False 0) demo_db 1 ''com.example'' ''Settings'' 7
          (demo_params True 0) ctl_init))) = 1 \<and>
   Fork_called 100 \<in> set (new_effects ctl_init
      (snd (CompileActivity (demo_sys False 0) demo_db 1 ''com.example'' ''Settings'' 7
          (demo_params True 0) ctl_init)))"
proof -
  let ?few = "CompileActivity (demo_sys False 0) demo_db 1 ''com.example'' ''Settings'' 7
                (demo_params True 3) ctl_init"
  let ?zero = "CompileActivity (demo_sys False 0) demo_db 1 ''com.example'' ''Settings'' 7
                (demo_params True 0) ctl_init"
  have r3: "recompile (demo_params True 3) \<or>
            \<not> filesystem_exists (demo_sys False 0)
                 (FilePath (demo_sys False 0) ''com.example'' ''Settings'' 7)"
    and r0: "recompile (demo_params True 0) \<or>
            \<not> filesystem_exists (demo_sys False 0)
                 (FilePath (demo_sys False 0) ''com.example'' ''Settings'' 7)"
    by (simp_all add: demo_simps)
  have a: "Activity_SelectByNameAndPackageId demo_db ''Settings'' 1 = Some demo_settings"
    by (simp add: demo_simps)
  have e: "evidence_count demo_db demo_settings = 2"
    by (simp add: evidence_count_def demo_simps demo_traces_settings)
  have m3: "unat (min_traces (demo_params True 3)) = 3"
    and m0: "min_traces (demo_params True 0) = 0"
    by (simp_all add: demo_simps)
  have few: "?few = (fst ?few, snd ?few)" and zero: "?zero = (fst ?zero, snd ?zero)"
    by simp_all
  from CompileActivity_evidence_threshold [OF r3 a few] e m3
       CompileActivity_evidence_threshold [OF r0 a zero] m0 a
  show ?thesis by (simp add: demo_simps ctl_init_def)
qed

subsection \<open>The per-activity entry point\<close>

text \<open>
  C7, as stated, fails. The package is in the store and has no activity \<open>Gone\<close>; with
  \<open>recompile\<close> off and the derived output file on disk, \<open>Compile\<close> returns success.
\<close>

theorem Compile_activity_missing_counterexample:
  "Package_SelectByNameAndVersion demo_db ''com.example'' 7 = Some demo_package \<and>
   Activity_SelectByNameAndPackageId demo_db ''Gone'' (pkg_id demo_package) = None \<and>
   fst (Compile_activity (demo_sys True 0) demo_db ''com.example'' ''Gone'' 7
          (demo_params False 3) ctl_init) = Inr True"
  by (simp add: Compile_activity_def CompileActivity_def Let_def demo_simps)

text \<open>
  C7, amended. When the package is not in the store, \<open>Compile\<close> returns failure. When the
  package is in the store and the activity is not under it, \<open>Compile\<close> returns failure
  unless \<open>recompile\<close> is off and the derived output file exists on disk; then it returns
  success, before the activity is looked up. In both cases nothing is forked and the job
  info is unchanged.
\<close>

theorem Compile_activity_missing:
  "(Package_SelectByNameAndVersion db pn v = None \<longrightarrow>
      fst (Compile_activity sys db pn an v params s) = Inr False \<and>
      last_job_info_f (snd (Compile_activity sys db pn an v params s)) = last_job_info_f s \<and>
      fork_calls (snd (Compile_activity sys db pn an v params s)) = fork_calls s) \<and>
   (Package_SelectByNameAndVersion db pn v = Some package \<and>
    Activity_SelectByNameAndPackageId db an (pkg_id package) = None \<longrightarrow>
      fst (Compile_activity sys db pn an v params s) =
        Inr (\<not> recompile params \<and> filesystem_exists sys (FilePath sys pn an v)) \<and>
      last_job_info_f (snd (Compile_activity sys db pn an v params s)) = last_job_info_f s \<and>
      fork_calls (snd (Compile_activity sys db pn an v params s)) = fork_calls s)"
  by (simp add: Compile_activity_def CompileActivity_def Let_def)

theorem Compile_activity_missing_witness:
  "Package_SelectByNameAndVersion demo_db ''org.absent'' 7 = None \<and>
   fst (Compile_activity (demo_sys True 0) demo_db ''org.absent'' ''Main'' 7
          (demo_params False 3) ctl_init) = Inr False \<and>
   Package_SelectByNameAndVersion demo_db ''com.example'' 7 = Some demo_package \<and>
   Activity_SelectByNameAndPackageId demo_db ''Gone'' (pkg_id demo_package) = None \<and>
   fst (Compile_activity (demo_sys True 0) demo_db ''com.example'' ''Gone'' 7
          (demo_params True 3) ctl_init) = Inr False \<and>
   fst (Compile_activity (demo_sys False 0) demo_db ''com.example'' ''Gone'' 7
          (demo_params False 3) ctl_init) = Inr False"
proof -
  have p0: "Package_SelectByNameAndVersion demo_db ''org.absent'' 7 = None"
    by (simp add: demo_db_def)
  have p1: "Package_SelectByNameAndVersion demo_db ''com.example'' 7 = Some demo_package"
    and a1: "Activity_SelectByNameAndPackageId demo_db ''Gone'' (pkg_id demo_package) = None"
    by (simp_all add: demo_simps)
  from Compile_activity_missing
         [of demo_db "''org.absent''" 7 "demo_sys True 0" "''Main''" "demo_params False 3"
             ctl_init demo_package]
       Compile_activity_missing
         [of demo_db "''com.example''" 7 "demo_sys True 0" "''Gone''" "demo_params True 3"
             ctl_init demo_package]
       Compile_activity_missing
         [of demo_db "''com.example''" 7 "demo_sys False 0" "''Gone''" "demo_params False 3"
             ctl_init demo_package]
       p0 p1 a1
  show ?thesis by (simp add: demo_simps)
qed

subsection \<open>The exit status of the compiler child\<close>

lemma StartViaFork_parent:
  assumes "0 <s exec_Fork sys (fork_calls s)"
  shows "fst (StartViaFork sys p s) = Inr (WIFEXITED (waitpid_wstatus sys (fork_calls s)))"
proof -
  from assms have "exec_Fork sys (fork_calls s) \<noteq> - 1"
    by (auto simp: word_sless_alt)
  with assms show ?thesis by (simp add: StartViaFork_def Let_def)
qed

lemma StartViaFork_fork_failed:
  "exec_Fork sys (fork_calls s) = - 1 \<Longrightarrow> fst (StartViaFork sys p s) = Inl LOG_FATAL_abort"
  by (simp add: StartViaFork_def Let_def)

lemma exit_status_0: "WIFEXITED 0" "WEXITSTATUS 0 = 0"
  by (simp_all add: wait_defs)

lemma exit_status_1: "WIFEXITED 0x100" "WEXITSTATUS 0x100 = 1"
  by (simp_all add: wait_defs)

lemma killed_by_signal_9: "\<not> WIFEXITED 9"
  by (simp add: wait_defs)

text \<open>
  C1 at a child that exits normally with status 1 (wait status \<open>0x100\<close>): \<open>StartViaFork\<close>
  logs the status at debug level and returns true, and \<open>CompileActivity\<close> goes on to
  insert the prefetch-file row and returns success.
\<close>

theorem StartViaFork_nonzero_exit_succeeds:
  "WIFEXITED 0x100 \<and> WEXITSTATUS 0x100 = 1 \<and>
   StartViaFork (demo_sys False 0x100) p ctl_init =
     (Inr True,
      \<lparr>last_job_info_f = \<lparr>last_run_ns_f = 0, activities_last_compiled_f = 0\<rparr>,
       fork_calls = 1,
       effects =
         [Fork_called 100,
          Logged (LOG DEBUG [Str ''forked into a process for compilation , pid = '', Num 100]),
          Waitpid_called 100 0x100,
          Logged (LOG DEBUG [Str ''Child terminated, status: '', Num 1])]\<rparr>) \<and>
   fst (CompileActivity (demo_sys False 0x100) demo_db 1 ''com.example'' ''Main'' 7
          (demo_params True 3) ctl_init) = Inr True \<and>
   last (effects (snd (CompileActivity (demo_sys False 0x100) demo_db 1 ''com.example''
          ''Main'' 7 (demo_params True 3) ctl_init)))
     = Insert_called 10 ''com.example/Main/compiled_trace.pb'' True"
proof -
  have a: "StartViaFork (demo_sys False 0x100) p ctl_init =
     (Inr True,
      \<lparr>last_job_info_f = \<lparr>last_run_ns_f = 0, activities_last_compiled_f = 0\<rparr>,
       fork_calls = 1,
       effects =
         [Fork_called 100,
          Logged (LOG DEBUG [Str ''forked into a process for compilation , pid = '', Num 100]),
          Waitpid_called 100 0x100,
          Logged (LOG DEBUG [Str ''Child terminated, status: '', Num 1])]\<rparr>)"
    by (simp add: StartViaFork_def Let_def demo_sys_simps word_sless_alt exit_status_1
          emit_def ctl_init_def)
  have b: "fst (CompileActivity (demo_sys False 0x100) demo_db 1 ''com.example'' ''Main'' 7
          (demo_params True 3) ctl_init) = Inr True"
    by (simp add: demo_compile_main exit_status_1)
  have c: "last (effects (snd (CompileActivity (demo_sys False 0x100) demo_db 1
          ''com.example'' ''Main'' 7 (demo_params True 3) ctl_init)))
     = Insert_called 10 ''com.example/Main/compiled_trace.pb'' True"
    by (simp add: CompileActivity_def Let_def demo_simps demo_traces_main case_prod_beta
          demo_StartViaFork exit_status_1)
  from a b c exit_status_1 show ?thesis by simp
qed

subsection \<open>The two dumps\<close>

lemma Dump_handle_plain: "l \<in> set (Dump_handle d) \<Longrightarrow> \<not> mentions_deadlock l"
  by (cases "kind_f d") (auto simp: Dump_handle_def sublist_code)

lemma Impl_Dump_plain: "\<not> annotated (fst (Impl_Dump locked t))"
  by (auto simp: annotated_def list_ex_iff Impl_Dump_def sublist_code
        dest: Dump_handle_plain)

lemma Dump_False_lines:
  "fst (Dump False sys db s) =
     Line ''Background job:'' [] # Line ''  (possible deadlock)'' []
       # tl (fst (Dump True sys db s))"
  by (simp add: Dump_def Let_def case_prod_beta)

lemma Dump_True_lines:
  "fst (Dump True sys db s) = Line ''Background job:'' [] # tl (fst (Dump True sys db s))"
  by (simp add: Dump_def Let_def case_prod_beta)

text \<open>
  C9, as stated, fails for the tracker. Its \<open>Dump\<close> with the try-lock failed, in the
  initial state, prints seven lines and none of them says \<open>possible deadlock\<close>.
\<close>

theorem Dump_try_lock_counterexample:
  "fst (Impl_Dump False Impl_init) =
     [Line ''Perfetto consumer state:'' [],
      Line ''  Last destroyed handle: %ld'' [Num 0],
      Line ''  Last created handle: %ld'' [Num 0],
      Line [] [],
      Line ''  In-flight handles:'' [],
      Line ''    (None)'' [],
      Line [] []] \<and>
   \<not> annotated (fst (Impl_Dump False Impl_init))"
  by (simp add: Impl_Dump_def Impl_init_def annotated_def sublist_code)

text \<open>
  C9, amended. Both dumps take the result of a try-lock and print their entries whether
  or not it succeeded, unlocking only if it did. The controller's \<open>Dump\<close> adds the line
  \<open>(possible deadlock)\<close> when the try-lock failed, and is otherwise the same report. The
  tracker's \<open>Dump\<close> prints the same report in both cases, every in-flight handle in it,
  and never a line that says \<open>possible deadlock\<close>.
\<close>

theorem Dump_try_lock:
  "annotated (fst (Dump False sys db s)) \<and>
   remove1 (Line ''  (possible deadlock)'' []) (fst (Dump False sys db s))
     = fst (Dump True sys db s) \<and>
   snd (snd (Dump locked sys db s)) = locked \<and>
   fst (Impl_Dump False t) = fst (Impl_Dump True t) \<and>
   snd (Impl_Dump locked t) = locked \<and>
   \<not> annotated (fst (Impl_Dump locked t)) \<and>
   sublist (concat (map (\<lambda>(k, handle_desc). Dump_handle handle_desc) (states_f t)))
     (fst (Impl_Dump locked t))"
proof -
  have a: "annotated (fst (Dump False sys db s))"
    by (simp add: Dump_False_lines annotated_def sublist_code)
  have b: "remove1 (Line ''  (possible deadlock)'' []) (fst (Dump False sys db s))
             = fst (Dump True sys db s)"
    by (simp add: Dump_def Let_def case_prod_beta)
  have c: "snd (snd (Dump locked sys db s)) = locked"
    by (simp add: Dump_def Let_def case_prod_beta)
  have d: "fst (Impl_Dump False t) = fst (Impl_Dump True t)"
    and e: "snd (Impl_Dump locked t) = locked"
    by (simp_all add: Impl_Dump_def)
  have f: "sublist (concat (map (\<lambda>(k, handle_desc). Dump_handle handle_desc) (states_f t)))
     (fst (Impl_Dump locked t))"
    unfolding Impl_Dump_def fst_conv
    by (rule sublist_appendI)
  from a b c d e f Impl_Dump_plain show ?thesis by blast
qed

theorem Dump_try_lock_witness:
  "annotated (fst (Dump False (demo_sys False 0) demo_db ctl_init)) \<and>
   \<not> annotated (fst (Dump True (demo_sys False 0) demo_db ctl_init)) \<and>
   \<not> annotated (fst (Impl_Dump False (state_after created_123))) \<and>
   length (fst (Impl_Dump False (state_after created_123))) = 21"
proof -
  have none: "PrefetchFile_SelectByVersionedComponentName demo_db p a v = None" for p a v
    by (simp add: demo_db_def)
  have "\<not> annotated (fst (Dump True (demo_sys False 0) demo_db ctl_init))"
    by (simp add: Dump_def DumpAllPackages_def DumpPackage_def DumpPackageActivity_def Let_def
          case_prod_beta demo_simps demo_traces_main demo_traces_settings none
          kMinTracesForCompilation_def ctl_init_def annotated_def sublist_code)
  moreover have "length (fst (Impl_Dump False (state_after created_123))) = 21"
    by (simp add: state_after_def run_created_123 Impl_Dump_def Dump_handle_def)
  moreover have "annotated (fst (Dump False (demo_sys False 0) demo_db ctl_init))"
    and "\<not> annotated (fst (Impl_Dump False (state_after created_123)))"
    using Dump_try_lock [of "demo_sys False 0" demo_db ctl_init False "state_after created_123"]
    by blast+
  ultimately show ?thesis by blast
qed

end
